theory Spec2Isabelle
  imports Main
begin

section \<open>JavaScript values and objects\<close>

text \<open>
  The normalizer works on plain JavaScript objects read from JSON. A value is one of the
  JSON kinds, or \<open>undefined\<close> (what reading an absent property gives). Numbers are
  integers here: the code below only tests a number for being zero and takes the length
  of an array.
\<close>

datatype jsval =
    JUndefined
  | JNull
  | JBool bool
  | JNum int
  | JStr string
  | JArr "jsval list"
  | JObj "(string \<times> jsval) list"

text \<open>An object is its own properties in insertion order; a well-formed one has each key once.\<close>

type_synonym obj = "(string \<times> jsval) list"

text \<open>Truthiness, as \<^verbatim>\<open>if (v)\<close>, \<^verbatim>\<open>v && w\<close> and \<^verbatim>\<open>v ? a : b\<close> test it.\<close>

fun truthy :: "jsval \<Rightarrow> bool" where
  "truthy JUndefined = False"
| "truthy JNull = False"
| "truthy (JBool b) = b"
| "truthy (JNum n) = (n \<noteq> 0)"
| "truthy (JStr s) = (s \<noteq> [])"
| "truthy (JArr vs) = True"
| "truthy (JObj ps) = True"

text \<open>The nullish coalescing operator \<^verbatim>\<open>a ?? b\<close>: \<open>b\<close> when \<open>a\<close> is null or undefined.\<close>

definition nullish :: "jsval \<Rightarrow> bool" where
  "nullish v = (v = JUndefined \<or> v = JNull)"

definition coalesce :: "jsval \<Rightarrow> jsval \<Rightarrow> jsval" where
  "coalesce a b = (if nullish a then b else a)"

text \<open>Property read \<^verbatim>\<open>o[k]\<close>: \<open>undefined\<close> for an absent key.\<close>

definition lookup :: "obj \<Rightarrow> string \<Rightarrow> jsval" where
  "lookup ob k = (case map_of ob k of None \<Rightarrow> JUndefined | Some v \<Rightarrow> v)"

text \<open>
  Property read on any value, as the optional chain \<^verbatim>\<open>v?.k\<close> gives it: \<open>undefined\<close>
  on null and undefined (and on the other values without properties).
\<close>

definition jsprop :: "jsval \<Rightarrow> string \<Rightarrow> jsval" where
  "jsprop v k = (case v of JObj ob \<Rightarrow> lookup ob k | _ \<Rightarrow> JUndefined)"

text \<open>Property write \<^verbatim>\<open>o[k] = v\<close>: an existing key keeps its place, a new one goes last.\<close>

fun assign :: "obj \<Rightarrow> string \<Rightarrow> jsval \<Rightarrow> obj" where
  "assign [] k v = [(k, v)]"
| "assign (p # ps) k v = (if fst p = k then (k, v) # ps else p # assign ps k v)"

text \<open>The object literal \<^verbatim>\<open>{...a, ...b}\<close>: the properties of \<open>b\<close> written onto a copy of \<open>a\<close>.\<close>

definition spread :: "obj \<Rightarrow> obj \<Rightarrow> obj" where
  "spread a b = foldl (\<lambda>ob (k, v). assign ob k v) a b"

text \<open>
  \<^verbatim>\<open>keys\<close> and \<^verbatim>\<open>omit\<close> of \<^verbatim>\<open>util\<close> (not part of the sources at hand) are taken
  for what their names and uses say: the own keys of an object in order, and a copy of an
  object without the listed properties.
\<close>

definition keys :: "obj \<Rightarrow> string list" where
  "keys ob = map fst ob"

definition omit :: "obj \<Rightarrow> string list \<Rightarrow> obj" where
  "omit ob ks = filter (\<lambda>p. fst p \<notin> set ks) ob"

section \<open>Specifications\<close>

text \<open>
  A unit specification. The properties that \<^verbatim>\<open>mapFacetedUnit\<close> names are fields
  (\<open>JUndefined\<close>, or \<open>None\<close> for the encoding, when absent); \<open>u_other\<close> holds every
  other own property (\<^verbatim>\<open>name\<close>, \<^verbatim>\<open>data\<close>, \<^verbatim>\<open>title\<close>, ...).
\<close>

record unit_spec =
  u_mark :: jsval
  u_encoding :: "obj option"
  u_projection :: jsval
  u_width :: jsval
  u_height :: jsval
  u_view :: jsval
  u_selection :: jsval
  u_other :: obj

text \<open>
  A facet definition is a row/column mapping or a single field definition
  (\<^verbatim>\<open>isFacetMapping\<close> tells them apart); a repeat definition is an array of field names
  or a row/column mapping of arrays (\<^verbatim>\<open>isArray\<close> tells them apart).
\<close>

datatype facet_def = FacetMapping obj | FacetFieldDef obj

datatype repeat_def =
    RepeatArray "string list"
  | RepeatMapping "string list option" "string list option"

text \<open>
  The variants of a specification. The last argument of each composite variant holds its
  other own properties (\<^verbatim>\<open>name\<close>, \<^verbatim>\<open>data\<close>, \<^verbatim>\<open>columns\<close>, \<^verbatim>\<open>resolve\<close>, ...);
  a layer has its \<^verbatim>\<open>encoding\<close> and \<^verbatim>\<open>projection\<close> apart, as \<^verbatim>\<open>mapLayer\<close> takes them.
\<close>

datatype spec =
    Unit unit_spec
  | Layer "spec list" "obj option" jsval obj
  | Facet facet_def spec obj
  | Repeat repeat_def spec obj
  | Concat "spec list" obj
  | HConcat "spec list" obj
  | VConcat "spec list" obj

text \<open>The properties of a specification that live in its property list.\<close>

fun other_props :: "spec \<Rightarrow> obj" where
  "other_props (Unit u) = u_other u"
| "other_props (Layer ls enc proj ob) = ob"
| "other_props (Facet fd s ob) = ob"
| "other_props (Repeat rd s ob) = ob"
| "other_props (Concat cs ob) = ob"
| "other_props (HConcat cs ob) = ob"
| "other_props (VConcat cs ob) = ob"

fun map_other :: "(obj \<Rightarrow> obj) \<Rightarrow> spec \<Rightarrow> spec" where
  "map_other f (Unit u) = Unit (u\<lparr>u_other := f (u_other u)\<rparr>)"
| "map_other f (Layer ls enc proj ob) = Layer ls enc proj (f ob)"
| "map_other f (Facet fd s ob) = Facet fd s (f ob)"
| "map_other f (Repeat rd s ob) = Repeat rd s (f ob)"
| "map_other f (Concat cs ob) = Concat cs (f ob)"
| "map_other f (HConcat cs ob) = HConcat cs (f ob)"
| "map_other f (VConcat cs ob) = VConcat cs (f ob)"

section \<open>The normalization context and the log\<close>

text \<open>
  The repeater binding: the current repeat, row and column field names. \<open>None\<close> stands
  for \<open>null\<close> and \<open>undefined\<close> alike; the code only tests these values for truthiness.
\<close>

record repeater_value =
  rv_repeat :: "string option"
  rv_row :: "string option"
  rv_column :: "string option"

record params =
  p_config :: jsval
  p_repeater :: "repeater_value option"
  p_parentEncoding :: "obj option"
  p_parentProjection :: jsval

text \<open>The context \<^verbatim>\<open>{config}\<close>.\<close>

definition config_only :: "jsval \<Rightarrow> params" where
  "config_only c =
     \<lparr>p_config = c, p_repeater = None, p_parentEncoding = None, p_parentProjection = JUndefined\<rparr>"

text \<open>The normalizers of the non-facet unit chain, by name.\<close>

datatype normalizer =
    BoxPlot | ErrorBar | ErrorBand | PathOverlay | RuleForRangedLine | RangeStep

text \<open>
  A warning is the kind of message and its arguments. The log records, in order, the
  warnings the code emits and its calls to the chain's normalizers (the match predicate
  and the expansion, each with the unit it is given).
\<close>

datatype warning =
    ColumnsNotSupportByRowCol string
  | FacetChannelDropped "string list"
  | EncodingOverridden "string list"
  | ProjectionOverridden jsval jsval
  | ConcatCannotShareAxis

datatype event =
    Warn warning
  | HasMatchingType normalizer unit_spec
  | Run normalizer unit_spec

section \<open>Merging encodings and projections\<close>

text \<open>An object is truthy whenever it is there.\<close>

definition mergeEncoding :: "obj option \<Rightarrow> obj option \<Rightarrow> obj option \<times> event list" where
  "mergeEncoding parentEncoding encoding =
     (let log1 =
        (case (parentEncoding, encoding) of
           (Some pe, Some e) \<Rightarrow>
             (let overriden =
                foldl (\<lambda>acc key. if truthy (lookup e key) then acc @ [key] else acc) [] (keys pe)
              in if length overriden > 0 then [Warn (EncodingOverridden overriden)] else [])
         | _ \<Rightarrow> []);
        merged =
          spread (spread [] (case parentEncoding of None \<Rightarrow> [] | Some pe \<Rightarrow> pe))
            (case encoding of None \<Rightarrow> [] | Some e \<Rightarrow> e)
      in (if length (keys merged) > 0 then Some merged else None, log1))"

definition mergeProjection :: "jsval \<Rightarrow> jsval \<Rightarrow> jsval \<times> event list" where
  "mergeProjection parentProjection projection =
     (coalesce projection parentProjection,
      if truthy parentProjection \<and> truthy projection
      then [Warn (ProjectionOverridden parentProjection projection)] else [])"

section \<open>The collaborators of the normalizer\<close>

text \<open>
  The channel names \<^verbatim>\<open>ROW\<close>, \<^verbatim>\<open>COLUMN\<close> and \<^verbatim>\<open>FACET\<close>: the keys that
  \<^verbatim>\<open>mapFacetedUnit\<close> takes out of an encoding by name.
\<close>

definition ROW :: string where "ROW = ''row''"
definition COLUMN :: string where "COLUMN = ''column''"
definition FACET :: string where "FACET = ''facet''"

text \<open>
  The functions the normalizer calls and that are not part of the sources at hand are
  parameters of the model: the test for a channel with a field, the substitution of
  repeater bindings into an encoding and into a facet definition, the sanitizer of names,
  and the two operations of each normalizer of the chain. The expansion \<^verbatim>\<open>run\<close> is
  given, as its third argument, the callback \<^verbatim>\<open>normalizeLayerOrUnit\<close>, which is this
  normalizer's own \<^verbatim>\<open>mapLayerOrUnit\<close> at every call: what \<^verbatim>\<open>run\<close> returns is taken
  as a function of the unit and the context. Warnings that these collaborators emit
  themselves are theirs and not part of the log.
\<close>

record env =
  channelHasField :: "obj option \<Rightarrow> string \<Rightarrow> bool"
  replaceRepeaterInEncoding :: "obj option \<Rightarrow> repeater_value option \<Rightarrow> obj option"
  replaceRepeaterInFacet :: "obj \<Rightarrow> repeater_value option \<Rightarrow> obj"
  varName :: "string \<Rightarrow> string"
  hasMatchingType :: "normalizer \<Rightarrow> unit_spec \<Rightarrow> jsval \<Rightarrow> bool"
  run :: "normalizer \<Rightarrow> unit_spec \<Rightarrow> params \<Rightarrow> spec"

text \<open>
  A call fails with a configuration error (an invalid specification), with the
  \<^verbatim>\<open>TypeError\<close> of destructuring \<open>undefined\<close> or \<open>null\<close>, or, in the model only,
  by running out of fuel.
\<close>

datatype error = InvalidSpec | TypeError | OutOfFuel

type_synonym result = "error + spec \<times> event list"

text \<open>Warnings emitted before a call come first in the log of the whole.\<close>

definition after_log :: "event list \<Rightarrow> error + 'a \<times> event list \<Rightarrow> error + 'a \<times> event list" where
  "after_log log1 r = (case r of Inl e \<Rightarrow> Inl e | Inr (x, log2) \<Rightarrow> Inr (x, log1 @ log2))"

text \<open>
  A loop over a list whose body pushes results onto one array (\<^verbatim>\<open>for ... of\<close> with
  \<^verbatim>\<open>push\<close>, and \<^verbatim>\<open>Array.map\<close>): the results and the logs in order; a failing
  body ends the loop.
\<close>

fun for_each :: "'a list \<Rightarrow> ('a \<Rightarrow> error + 'b list \<times> event list) \<Rightarrow> error + 'b list \<times> event list" where
  "for_each [] body = Inr ([], [])"
| "for_each (x # xs) body =
     (case body x of
        Inl e \<Rightarrow> Inl e
      | Inr (ys, log1) \<Rightarrow>
          (case for_each xs body of
             Inl e \<Rightarrow> Inl e
           | Inr (zs, log2) \<Rightarrow> Inr (ys @ zs, log1 @ log2)))"

definition array_map :: "('a \<Rightarrow> error + 'b \<times> event list) \<Rightarrow> 'a list \<Rightarrow> error + 'b list \<times> event list" where
  "array_map f xs =
     for_each xs (\<lambda>x. case f x of Inl e \<Rightarrow> Inl e | Inr (y, log1) \<Rightarrow> Inr ([y], log1))"

section \<open>Normalizing a non-facet unit\<close>

text \<open>The chain, in the order of the field \<^verbatim>\<open>nonFacetUnitNormalizers\<close>.\<close>

definition nonFacetUnitNormalizers :: "normalizer list" where
  "nonFacetUnitNormalizers =
     [BoxPlot, ErrorBar, ErrorBand, PathOverlay, RuleForRangedLine, RangeStep]"

text \<open>
  The loop of \<^verbatim>\<open>mapUnit\<close> over the chain: the first normalizer that matches returns
  its expansion; when the loop ends, the unit is returned.
\<close>

fun mapUnit_loop :: "env \<Rightarrow> normalizer list \<Rightarrow> unit_spec \<Rightarrow> params \<Rightarrow> spec \<times> event list" where
  "mapUnit_loop env [] spec params = (Unit spec, [])"
| "mapUnit_loop env (unitNormalizer # rest) spec params =
     (if hasMatchingType env unitNormalizer spec (p_config params)
      then (run env unitNormalizer spec params,
            [HasMatchingType unitNormalizer spec, Run unitNormalizer spec])
      else (let (r, log1) = mapUnit_loop env rest spec params
            in (r, HasMatchingType unitNormalizer spec # log1)))"

function mapUnit :: "env \<Rightarrow> unit_spec \<Rightarrow> params \<Rightarrow> spec \<times> event list"
  and mapUnitWithParentEncodingOrProjection :: "env \<Rightarrow> unit_spec \<Rightarrow> params \<Rightarrow> spec \<times> event list"
where
  "mapUnit env spec params =
     (let specWithReplacedEncoding =
        spec\<lparr>u_encoding := replaceRepeaterInEncoding env (u_encoding spec) (p_repeater params)\<rparr>
      in if p_parentEncoding params \<noteq> None \<or> truthy (p_parentProjection params)
         then mapUnitWithParentEncodingOrProjection env specWithReplacedEncoding params
         else mapUnit_loop env nonFacetUnitNormalizers specWithReplacedEncoding params)"
| "mapUnitWithParentEncodingOrProjection env spec params =
     (let (mergedProjection, log1) = mergeProjection (p_parentProjection params) (u_projection spec);
          (mergedEncoding, log2) =
             mergeEncoding (p_parentEncoding params)
               (replaceRepeaterInEncoding env (u_encoding spec) (p_repeater params));
          spec1 = (if truthy mergedProjection then spec\<lparr>u_projection := mergedProjection\<rparr> else spec);
          spec2 = (case mergedEncoding of Some e \<Rightarrow> spec1\<lparr>u_encoding := Some e\<rparr> | None \<Rightarrow> spec1);
          (r, log3) = mapUnit env spec2 (config_only (p_config params))
      in (r, log1 @ log2 @ log3))"
  by pat_completeness auto
termination
  by (relation "measure (\<lambda>x. case x of
          Inl (env, spec, params) \<Rightarrow>
            if p_parentEncoding params \<noteq> None \<or> truthy (p_parentProjection params) then 3 else 1
        | Inr y \<Rightarrow> 2)")
    (auto simp: config_only_def)

section \<open>Facets\<close>

text \<open>
  The properties of a value as destructuring takes them: those of an object; the other
  values that can be destructured have none here (a channel definition is an object).
\<close>

definition props_of :: "jsval \<Rightarrow> obj" where
  "props_of v = (case v of JObj ob \<Rightarrow> ob | _ \<Rightarrow> [])"

text \<open>
  The body of the inner loop of \<^verbatim>\<open>getFacetMappingAndLayout\<close>, over
  \<^verbatim>\<open>align\<close>, \<^verbatim>\<open>center\<close> and \<^verbatim>\<open>spacing\<close>, and of its outer loop, over
  \<^verbatim>\<open>ROW\<close> and \<^verbatim>\<open>COLUMN\<close>.
\<close>

definition layout_step :: "string \<Rightarrow> jsval \<Rightarrow> obj \<Rightarrow> string \<Rightarrow> obj" where
  "layout_step channel def layout prp =
     (if jsprop def prp \<noteq> JUndefined
      then assign layout prp
             (JObj (assign (props_of (coalesce (lookup layout prp) (JObj []))) channel (jsprop def prp)))
      else layout)"

definition channel_step :: "obj \<Rightarrow> obj \<times> obj \<Rightarrow> string \<Rightarrow> obj \<times> obj" where
  "channel_step facets acc channel =
     (let (facetMapping, layout) = acc;
          def = lookup facets channel
      in if truthy def
         then (assign facetMapping channel
                 (JObj (omit (props_of def) [''align'', ''center'', ''spacing'', ''columns''])),
               foldl (layout_step channel def) layout [''align'', ''center'', ''spacing''])
         else (facetMapping, layout))"

definition getFacetMappingAndLayout ::
  "env \<Rightarrow> jsval \<Rightarrow> jsval \<Rightarrow> jsval \<Rightarrow> params \<Rightarrow> error + (facet_def \<times> obj) \<times> event list" where
  "getFacetMappingAndLayout env row column facet params =
     (let facets = [(ROW, row), (COLUMN, column), (FACET, facet)]
      in if truthy row \<or> truthy column
         then
           (let log1 =
              (if truthy facet
               then [Warn (FacetChannelDropped
                        ((if truthy row then [ROW] else []) @ (if truthy column then [COLUMN] else [])))]
               else []);
                (facetMapping, layout) = foldl (channel_step facets) ([], []) [ROW, COLUMN]
            in Inr ((FacetMapping facetMapping, layout), log1))
         else if nullish facet then Inl TypeError
         else
           (let align = jsprop facet ''align'';
                center = jsprop facet ''center'';
                spacing = jsprop facet ''spacing'';
                columns = jsprop facet ''columns'';
                facetMapping = omit (props_of facet) [''align'', ''center'', ''spacing'', ''columns'']
            in Inr ((FacetFieldDef (replaceRepeaterInFacet env facetMapping (p_repeater params)),
                     spread (spread (spread (spread []
                       (if truthy align then [(''align'', align)] else []))
                       (if truthy center then [(''center'', center)] else []))
                       (if truthy spacing then [(''spacing'', spacing)] else []))
                       (if truthy columns then [(''columns'', columns)] else [])),
                    [])))"

text \<open>
  Modelled from the spec: \<^verbatim>\<open>isFacetMapping\<close> (not part of the sources at hand) tells
  whether a facet definition is the mapping keyed by row and column, and not a single
  field definition.
\<close>

fun isFacetMapping :: "facet_def \<Rightarrow> bool" where
  "isFacetMapping (FacetMapping m) = True"
| "isFacetMapping (FacetFieldDef f) = False"

text \<open>
  Modelled from the spec: \<^verbatim>\<open>SpecMapper.mapFacet\<close>, the inherited handler of a facet
  (not part of the sources at hand), normalizes the inner specification with
  \<^verbatim>\<open>this.map\<close> and keeps every other property of the facet.
\<close>

definition super_mapFacet ::
  "(spec \<Rightarrow> params \<Rightarrow> result) \<Rightarrow> facet_def \<Rightarrow> spec \<Rightarrow> obj \<Rightarrow> params \<Rightarrow> result" where
  "super_mapFacet this_map facet child props params =
     (case this_map child params of
        Inl e \<Rightarrow> Inl e
      | Inr (c, log1) \<Rightarrow> Inr (Facet facet c props, log1))"

text \<open>
  The handlers below are methods that call \<^verbatim>\<open>this.map\<close> or
  \<^verbatim>\<open>this.mapLayerOrUnit\<close>; the method called is their argument \<open>this_map\<close>
  (\<open>this_mapLayerOrUnit\<close>). A facet is given by its facet definition, its inner
  specification and its other properties.
\<close>

definition mapFacet ::
  "env \<Rightarrow> (spec \<Rightarrow> params \<Rightarrow> result) \<Rightarrow> facet_def \<Rightarrow> spec \<Rightarrow> obj \<Rightarrow> params \<Rightarrow> result" where
  "mapFacet env this_map facet child props params =
     (if isFacetMapping facet \<and> truthy (lookup props ''columns'')
      then after_log [Warn (ColumnsNotSupportByRowCol ''facet'')]
             (super_mapFacet this_map facet child (omit props [''columns'']) params)
      else super_mapFacet this_map facet child props params)"

definition mapFacetedUnit ::
  "env \<Rightarrow> (spec \<Rightarrow> params \<Rightarrow> result) \<Rightarrow> unit_spec \<Rightarrow> params \<Rightarrow> result" where
  "mapFacetedUnit env this_map spec params =
     (case u_encoding spec of
        None \<Rightarrow> Inl TypeError
      | Some enc \<Rightarrow>
          (let row = lookup enc ''row'';
               column = lookup enc ''column'';
               facet = lookup enc ''facet'';
               encoding = omit enc [''row'', ''column'', ''facet''];
               outerSpec = u_other spec
           in case getFacetMappingAndLayout env row column facet params of
                Inl e \<Rightarrow> Inl e
              | Inr ((facetMapping, layout), log1) \<Rightarrow>
                  after_log log1
                    (mapFacet env this_map facetMapping
                       (Unit \<lparr>u_mark = u_mark spec,
                              u_encoding = replaceRepeaterInEncoding env (Some encoding) (p_repeater params),
                              u_projection = (if truthy (u_projection spec) then u_projection spec else JUndefined),
                              u_width = (if truthy (u_width spec) then u_width spec else JUndefined),
                              u_height = (if truthy (u_height spec) then u_height spec else JUndefined),
                              u_view = (if truthy (u_view spec) then u_view spec else JUndefined),
                              u_selection = (if truthy (u_selection spec) then u_selection spec else JUndefined),
                              u_other = []\<rparr>)
                       (spread outerSpec layout) params)))"

section \<open>Layers\<close>

text \<open>
  Modelled from the spec: \<^verbatim>\<open>SpecMapper.mapLayer\<close>, the inherited handler of a layer
  (not part of the sources at hand), normalizes each child in order with
  \<^verbatim>\<open>this.mapLayerOrUnit\<close> and keeps the other properties. It is given a layer without
  \<^verbatim>\<open>encoding\<close> and \<^verbatim>\<open>projection\<close>.
\<close>

definition super_mapLayer ::
  "(spec \<Rightarrow> params \<Rightarrow> result) \<Rightarrow> spec list \<Rightarrow> obj \<Rightarrow> params \<Rightarrow> result" where
  "super_mapLayer this_mapLayerOrUnit layer rest params =
     (case array_map (\<lambda>subspec. this_mapLayerOrUnit subspec params) layer of
        Inl e \<Rightarrow> Inl e
      | Inr (children, log1) \<Rightarrow> Inr (Layer children None JUndefined rest, log1))"

definition mapLayer ::
  "(spec \<Rightarrow> params \<Rightarrow> result) \<Rightarrow> spec list \<Rightarrow> obj option \<Rightarrow> jsval \<Rightarrow> obj \<Rightarrow> params \<Rightarrow> result" where
  "mapLayer this_mapLayerOrUnit layer encoding projection rest params0 =
     (let (parentEncoding, log1) = mergeEncoding (p_parentEncoding params0) encoding;
          (parentProjection, log2) = mergeProjection (p_parentProjection params0) projection;
          params = params0\<lparr>p_parentEncoding := parentEncoding, p_parentProjection := parentProjection\<rparr>
      in after_log (log1 @ log2) (super_mapLayer this_mapLayerOrUnit layer rest params))"

section \<open>Repeats\<close>

fun isArray :: "repeat_def \<Rightarrow> bool" where
  "isArray (RepeatArray vs) = True"
| "isArray (RepeatMapping r c) = False"

text \<open>A repeater value is truthy when it is a non-empty string.\<close>

fun truthy_name :: "string option \<Rightarrow> bool" where
  "truthy_name None = False"
| "truthy_name (Some s) = (s \<noteq> [])"

text \<open>One part of a child's name: the prefix and the sanitized value, or nothing.\<close>

definition name_token :: "env \<Rightarrow> string \<Rightarrow> string option \<Rightarrow> string" where
  "name_token env prefix v = (if truthy_name v then prefix @ varName env (the v) else [])"

definition child_name :: "env \<Rightarrow> string option \<Rightarrow> string option \<Rightarrow> string option \<Rightarrow> string" where
  "child_name env repeatValue rowValue columnValue =
     name_token env ''__repeat_'' repeatValue
     @ name_token env ''__row_'' rowValue
     @ name_token env ''__column_'' columnValue"

text \<open>The body of the innermost loop of \<^verbatim>\<open>mapRepeat\<close>: one child.\<close>

definition repeat_child ::
  "env \<Rightarrow> (spec \<Rightarrow> params \<Rightarrow> result) \<Rightarrow> spec \<Rightarrow> params
     \<Rightarrow> string option \<Rightarrow> string option \<Rightarrow> string option \<Rightarrow> error + spec list \<times> event list" where
  "repeat_child env this_map childSpec params repeatValue rowValue columnValue =
     (let childRepeater = \<lparr>rv_repeat = repeatValue, rv_row = rowValue, rv_column = columnValue\<rparr>
      in case this_map childSpec (params\<lparr>p_repeater := Some childRepeater\<rparr>) of
           Inl e \<Rightarrow> Inl e
         | Inr (child, log1) \<Rightarrow>
             (let named = map_other (\<lambda>ob. assign ob ''name''
                            (JStr (child_name env repeatValue rowValue columnValue))) child
              in Inr ([map_other (\<lambda>ob. omit ob [''data'']) named], log1)))"

text \<open>The three sequences of \<^verbatim>\<open>mapRepeat\<close>.\<close>

definition repeat_row :: "repeat_def \<Rightarrow> repeater_value option \<Rightarrow> string option list" where
  "repeat_row repeat repeater =
     (case repeat of
        RepeatMapping (Some r) c \<Rightarrow> map Some r
      | _ \<Rightarrow> [case repeater of Some rp \<Rightarrow> rv_row rp | None \<Rightarrow> None])"

definition repeat_column :: "repeat_def \<Rightarrow> repeater_value option \<Rightarrow> string option list" where
  "repeat_column repeat repeater =
     (case repeat of
        RepeatMapping r (Some c) \<Rightarrow> map Some c
      | _ \<Rightarrow> [case repeater of Some rp \<Rightarrow> rv_column rp | None \<Rightarrow> None])"

definition repeat_values :: "repeat_def \<Rightarrow> repeater_value option \<Rightarrow> string option list" where
  "repeat_values repeat repeater =
     (case repeat of
        RepeatArray vs \<Rightarrow> map Some vs
      | _ \<Rightarrow> [case repeater of Some rp \<Rightarrow> rv_repeat rp | None \<Rightarrow> None])"

text \<open>
  A repeat is given by its repeat definition, its inner specification and its other
  properties (\<^verbatim>\<open>data\<close> and \<^verbatim>\<open>columns\<close> among them).
\<close>

definition mapRepeat ::
  "env \<Rightarrow> (spec \<Rightarrow> params \<Rightarrow> result) \<Rightarrow> repeat_def \<Rightarrow> spec \<Rightarrow> obj \<Rightarrow> params \<Rightarrow> result" where
  "mapRepeat env this_map repeat childSpec props params =
     (let data = lookup props ''data'';
          remainingProperties = omit props [''data''];
          (props1, log1) =
             (if \<not> isArray repeat \<and> truthy (lookup props ''columns'')
              then (omit props [''columns''], [Warn (ColumnsNotSupportByRowCol ''repeat'')])
              else (props, []));
          repeater = p_repeater params;
          row = repeat_row repeat repeater;
          column = repeat_column repeat repeater;
          repeatValues = repeat_values repeat repeater
      in case for_each repeatValues (\<lambda>repeatValue.
                for_each row (\<lambda>rowValue.
                  for_each column (\<lambda>columnValue.
                    repeat_child env this_map childSpec params repeatValue rowValue columnValue))) of
           Inl e \<Rightarrow> Inl e
         | Inr (children, log2) \<Rightarrow>
             (let columns =
                (case repeat of
                   RepeatArray vs \<Rightarrow> lookup props1 ''columns''
                 | RepeatMapping r (Some c) \<Rightarrow> JNum (int (length c))
                 | RepeatMapping r None \<Rightarrow> JNum 1)
              in Inr (Concat children
                        (spread (spread [(''data'', coalesce data (lookup (other_props childSpec) ''data''))]
                                   remainingProperties)
                           [(''columns'', columns)]),
                      log1 @ log2)))"

section \<open>The dispatch\<close>

text \<open>
  Modelled from the spec: \<^verbatim>\<open>SpecMapper.map\<close>, \<^verbatim>\<open>mapLayerOrUnit\<close> and the handlers
  of the concatenations (not part of the sources at hand). The generic dispatch gives
  each variant to its handler; a concatenation normalizes its children in order with
  \<^verbatim>\<open>this.map\<close> and keeps its other properties; a layer's child that is neither a
  layer nor a unit fails with a configuration error.
\<close>

definition super_map ::
  "env \<Rightarrow> (spec \<Rightarrow> params \<Rightarrow> result) \<Rightarrow> (spec \<Rightarrow> params \<Rightarrow> result) \<Rightarrow> spec \<Rightarrow> params \<Rightarrow> result" where
  "super_map env this_map this_mapLayerOrUnit spec params =
     (case spec of
        Facet facet child props \<Rightarrow> mapFacet env this_map facet child props params
      | Repeat repeat child props \<Rightarrow> mapRepeat env this_map repeat child props params
      | HConcat cs props \<Rightarrow>
          (case array_map (\<lambda>subspec. this_map subspec params) cs of
             Inl e \<Rightarrow> Inl e
           | Inr (children, log1) \<Rightarrow> Inr (HConcat children props, log1))
      | VConcat cs props \<Rightarrow>
          (case array_map (\<lambda>subspec. this_map subspec params) cs of
             Inl e \<Rightarrow> Inl e
           | Inr (children, log1) \<Rightarrow> Inr (VConcat children props, log1))
      | Concat cs props \<Rightarrow>
          (case array_map (\<lambda>subspec. this_map subspec params) cs of
             Inl e \<Rightarrow> Inl e
           | Inr (children, log1) \<Rightarrow> Inr (Concat children props, log1))
      | _ \<Rightarrow> this_mapLayerOrUnit spec params)"

text \<open>
  The normalizer: \<^verbatim>\<open>CoreNormalizer.map\<close> and \<^verbatim>\<open>mapLayerOrUnit\<close>. The recursion
  through \<^verbatim>\<open>this\<close> need not end for every collaborator (a unit promoted to a facet is
  normalized again), so each call through \<^verbatim>\<open>this\<close> takes one unit of fuel.
\<close>

fun map_spec :: "env \<Rightarrow> nat \<Rightarrow> spec \<Rightarrow> params \<Rightarrow> result"
  and mapLayerOrUnit :: "env \<Rightarrow> nat \<Rightarrow> spec \<Rightarrow> params \<Rightarrow> result"
where
  "map_spec env 0 spec params = Inl OutOfFuel"
| "map_spec env (Suc n) spec params =
     (case spec of
        Unit u \<Rightarrow>
          (let hasRow = channelHasField env (u_encoding u) ROW;
               hasColumn = channelHasField env (u_encoding u) COLUMN;
               hasFacet = channelHasField env (u_encoding u) FACET
           in if hasRow \<or> hasColumn \<or> hasFacet
              then mapFacetedUnit env (map_spec env n) u params
              else super_map env (map_spec env n) (mapLayerOrUnit env n) spec params)
      | _ \<Rightarrow> super_map env (map_spec env n) (mapLayerOrUnit env n) spec params)"
| "mapLayerOrUnit env 0 spec params = Inl OutOfFuel"
| "mapLayerOrUnit env (Suc n) spec params =
     (case spec of
        Layer layer encoding projection rest \<Rightarrow>
          mapLayer (mapLayerOrUnit env n) layer encoding projection rest params
      | Unit u \<Rightarrow> Inr (mapUnit env u params)
      | _ \<Rightarrow> Inl InvalidSpec)"

section \<open>The concatenation model\<close>

text \<open>
  A \<^verbatim>\<open>ConcatModel\<close>: what the constructor of the base class \<^verbatim>\<open>Model\<close> builds
  (of a type \<open>'b\<close> left open), the kind of concatenation, the child models in order
  (of a type \<open>'m\<close> left open: any model), and the selections of its component, absent
  until \<^verbatim>\<open>parseSelections\<close> has run.
\<close>

record ('b, 'm) concat_model =
  cm_base :: 'b
  cm_concatType :: string
  cm_children :: "'m list"
  cm_selection :: "obj option"

fun isVConcatSpec :: "spec \<Rightarrow> bool" where
  "isVConcatSpec (VConcat cs props) = True"
| "isVConcatSpec s = False"

fun isHConcatSpec :: "spec \<Rightarrow> bool" where
  "isHConcatSpec (HConcat cs props) = True"
| "isHConcatSpec s = False"

text \<open>
  \<^verbatim>\<open>getChildren\<close>. The type of its argument admits the three concatenations only; on
  another variant \<^verbatim>\<open>spec.concat\<close> is \<open>undefined\<close>, and mapping over it fails.
\<close>

fun getChildren :: "spec \<Rightarrow> error + spec list" where
  "getChildren (VConcat cs props) = Inr cs"
| "getChildren (HConcat cs props) = Inr cs"
| "getChildren (Concat cs props) = Inr cs"
| "getChildren s = Inl TypeError"

text \<open>The decimal digits of an index, as \<^verbatim>\<open>'concat_' + i\<close> writes them.\<close>

function string_of_nat :: "nat \<Rightarrow> string" where
  "string_of_nat n =
     (if n < 10 then [''0123456789'' ! n]
      else string_of_nat (n div 10) @ [''0123456789'' ! (n mod 10)])"
  by pat_completeness auto
termination
  by (relation "measure id") auto

text \<open>
  The constructor. The constructor of \<^verbatim>\<open>Model\<close>, \<^verbatim>\<open>getName\<close> and
  \<^verbatim>\<open>buildModel\<close> are not part of the sources at hand and are parameters; building a
  child may log. A child is built with the model under construction as its parent: its
  base and its kind.
\<close>

definition ConcatModel_new ::
  "(spec \<Rightarrow> 'p \<Rightarrow> string \<Rightarrow> jsval \<Rightarrow> jsval \<Rightarrow> 'b) \<Rightarrow> ('b \<Rightarrow> string \<Rightarrow> string)
     \<Rightarrow> (spec \<Rightarrow> 'b \<times> string \<Rightarrow> string \<Rightarrow> jsval \<Rightarrow> jsval \<Rightarrow> 'm \<times> event list)
     \<Rightarrow> spec \<Rightarrow> 'p \<Rightarrow> string \<Rightarrow> jsval \<Rightarrow> error + ('b, 'm) concat_model \<times> event list" where
  "ConcatModel_new super_new getName buildModel spec parent parentGivenName config =
     (let resolve = lookup (other_props spec) ''resolve'';
          base = super_new spec parent parentGivenName config resolve;
          log1 =
            (if jsprop (jsprop resolve ''axis'') ''x'' = JStr ''shared''
                \<or> jsprop (jsprop resolve ''axis'') ''y'' = JStr ''shared''
             then [Warn ConcatCannotShareAxis] else []);
          concatType =
            (if isVConcatSpec spec then ''vconcat''
             else if isHConcatSpec spec then ''hconcat'' else ''concat'')
      in case getChildren spec of
           Inl e \<Rightarrow> Inl e
         | Inr cs \<Rightarrow>
             (let built =
                map (\<lambda>(child, i).
                       buildModel child (base, concatType)
                         (getName base (''concat_'' @ string_of_nat i)) JUndefined config)
                    (zip cs [0..<length cs])
              in Inr (\<lparr>cm_base = base, cm_concatType = concatType,
                        cm_children = map fst built, cm_selection = None\<rparr>,
                      log1 @ concat (map snd built))))"

text \<open>
  \<^verbatim>\<open>parseSelections\<close>. A child parses its own selections (\<open>child_parse\<close>, which
  returns the child after the call and what it logged); \<open>child_selection\<close> reads the
  selections of a child's component. A child changes no model but itself.
\<close>

definition merge_selection :: "obj \<Rightarrow> obj \<Rightarrow> obj" where
  "merge_selection selection child_sel =
     foldl (\<lambda>sel key. assign sel key (lookup child_sel key)) selection (keys child_sel)"

definition parseSelections_step ::
  "('m \<Rightarrow> 'm \<times> event list) \<Rightarrow> ('m \<Rightarrow> obj)
     \<Rightarrow> obj \<times> 'm list \<times> event list \<Rightarrow> 'm \<Rightarrow> obj \<times> 'm list \<times> event list" where
  "parseSelections_step child_parse child_selection st child =
     (let (selection, parsed, log0) = st;
          (child', log1) = child_parse child
      in (merge_selection selection (child_selection child'), parsed @ [child'], log0 @ log1))"

definition parseSelections ::
  "('m \<Rightarrow> 'm \<times> event list) \<Rightarrow> ('m \<Rightarrow> obj)
     \<Rightarrow> ('b, 'm) concat_model \<Rightarrow> ('b, 'm) concat_model \<times> event list" where
  "parseSelections child_parse child_selection this =
     (let (selection, children, log1) =
            foldl (parseSelections_step child_parse child_selection) ([], [], []) (cm_children this)
      in (this\<lparr>cm_children := children, cm_selection := Some selection\<rparr>, log1))"

section \<open>Sample collaborators\<close>

text \<open>
  Collaborators for the worked examples below: a channel has a field when its definition
  is truthy, the substitutions of repeater bindings change nothing, names are kept as they
  are, the error bar and path overlay normalizers match a unit whose mark is
  \<^verbatim>\<open>errorbar\<close>, and every expansion is the same empty layer. A sample unit has a mark
  and an encoding and nothing else.
\<close>

definition sample_env :: env where
  "sample_env =
     \<lparr>channelHasField = (\<lambda>enc ch. case enc of None \<Rightarrow> False | Some e \<Rightarrow> truthy (lookup e ch)),
      replaceRepeaterInEncoding = (\<lambda>enc r. enc),
      replaceRepeaterInFacet = (\<lambda>f r. f),
      varName = (\<lambda>s. s),
      hasMatchingType = (\<lambda>nz u cfg. (nz = ErrorBar \<or> nz = PathOverlay) \<and> u_mark u = JStr ''errorbar''),
      run = (\<lambda>nz u p. Layer [] None JUndefined [(''description'', JStr ''expanded'')])\<rparr>"

definition sample_unit :: "string \<Rightarrow> obj \<Rightarrow> unit_spec" where
  "sample_unit m enc =
     \<lparr>u_mark = JStr m, u_encoding = Some enc, u_projection = JUndefined, u_width = JUndefined,
      u_height = JUndefined, u_view = JUndefined, u_selection = JUndefined, u_other = []\<rparr>"

text \<open>
  A sample child of a repeat: a point unit with data of its own; the same unit under a
  name and without data, as \<^verbatim>\<open>mapRepeat\<close> leaves it; and the log of normalizing the
  sample child, where no normalizer of the chain matches.
\<close>

definition sample_child :: spec where
  "sample_child =
     Unit ((sample_unit ''point'' [(''x'', JStr ''A'')])\<lparr>u_other := [(''data'', JStr ''child data'')]\<rparr>)"

definition sample_named :: "string \<Rightarrow> spec" where
  "sample_named n =
     Unit ((sample_unit ''point'' [(''x'', JStr ''A'')])\<lparr>u_other := [(''name'', JStr n)]\<rparr>)"

definition sample_log :: "event list" where
  "sample_log =
     map (\<lambda>nz. HasMatchingType nz
            ((sample_unit ''point'' [(''x'', JStr ''A'')])\<lparr>u_other := [(''data'', JStr ''child data'')]\<rparr>))
       nonFacetUnitNormalizers"

section \<open>Specifications that normalization leaves as they are\<close>










section \<open>Objects: basic facts\<close>

lemma overriden_filter:
  "foldl (\<lambda>acc key. if P key then acc @ [key] else acc) acc0 ks = acc0 @ filter P ks"
  by (induction ks arbitrary: acc0) auto

lemma keys_assign:
  "set (keys (assign ob k v)) = insert k (set (keys ob))"
  by (induction ob) (auto simp: keys_def)

lemma lookup_assign:
  "lookup (assign ob k v) k' = (if k' = k then v else lookup ob k')"
  by (induction ob) (auto simp: lookup_def)

lemma assign_not_Nil: "assign ob k v \<noteq> []"
  by (cases ob) auto

lemma distinct_assign: "distinct (keys ob) \<Longrightarrow> distinct (keys (assign ob k v))"
proof (induction ob)
  case Nil
  then show ?case by (simp add: keys_def)
next
  case (Cons p ps)
  have "set (keys (assign ps k v)) = insert k (set (keys ps))" by (rule keys_assign)
  with Cons show ?case by (auto simp: keys_def)
qed

lemma spread_snoc: "spread a (b @ [(k, v)]) = assign (spread a b) k v"
  by (simp add: spread_def)

lemma lookup_spread:
  "distinct (keys b) \<Longrightarrow> lookup (spread a b) k = (if k \<in> set (keys b) then lookup b k else lookup a k)"
proof (induction b rule: rev_induct)
  case Nil
  then show ?case by (simp add: spread_def keys_def)
next
  case (snoc p b)
  obtain k' v' where p: "p = (k', v')" by (cases p)
  from snoc.prems have d: "distinct (keys b)" and nk: "k' \<notin> set (keys b)"
    by (auto simp: keys_def p)
  have mem: "\<And>x. x \<in> set (keys b) \<longleftrightarrow> map_of b x \<noteq> None"
    by (simp add: keys_def map_of_eq_None_iff)
  have lk: "lookup (b @ [(k', v')]) k = (if k \<in> set (keys b) then lookup b k else if k = k' then v' else JUndefined)"
    unfolding mem by (auto simp: lookup_def map_add_def split: option.splits)
  show ?case
    using snoc.IH[OF d] nk unfolding p spread_snoc lookup_assign lk
    by (auto simp: keys_def)
qed

lemma keys_spread: "set (keys (spread a b)) = set (keys a) \<union> set (keys b)"
proof (induction b rule: rev_induct)
  case Nil
  then show ?case by (simp add: spread_def keys_def)
next
  case (snoc p b)
  obtain k' v' where p: "p = (k', v')" by (cases p)
  show ?case unfolding p spread_snoc keys_assign snoc.IH by (auto simp: keys_def)
qed

lemma distinct_spread: "distinct (keys a) \<Longrightarrow> distinct (keys (spread a b))"
proof (induction b rule: rev_induct)
  case Nil
  then show ?case by (simp add: spread_def)
next
  case (snoc p b)
  obtain k' v' where p: "p = (k', v')" by (cases p)
  show ?case unfolding p spread_snoc using snoc by (simp add: distinct_assign)
qed

lemma spread_Nil_iff: "spread a b = [] \<longleftrightarrow> a = [] \<and> b = []"
proof (induction b rule: rev_induct)
  case Nil
  then show ?case by (simp add: spread_def)
next
  case (snoc p b)
  obtain k' v' where p: "p = (k', v')" by (cases p)
  show ?case unfolding p spread_snoc by (simp add: assign_not_Nil)
qed

lemma spread_Nil_left: "distinct (keys b) \<Longrightarrow> spread [] b = b"
proof (induction b rule: rev_induct)
  case Nil
  then show ?case by (simp add: spread_def)
next
  case (snoc p b)
  obtain k' v' where p: "p = (k', v')" by (cases p)
  from snoc.prems have d: "distinct (keys b)" and nk: "k' \<notin> set (keys b)"
    by (auto simp: keys_def p)
  have "assign b k' v' = b @ [(k', v')]" using nk
    by (induction b) (auto simp: keys_def)
  then show ?case unfolding p spread_snoc using snoc.IH[OF d] by simp
qed


section \<open>Merging encodings\<close>

lemma mergeEncoding_Some_Some:
  "mergeEncoding (Some pe) (Some e) =
     (if spread (spread [] pe) e = [] then None else Some (spread (spread [] pe) e),
      if filter (\<lambda>k. truthy (lookup e k)) (keys pe) = [] then []
      else [Warn (EncodingOverridden (filter (\<lambda>k. truthy (lookup e k)) (keys pe)))])"
  by (simp add: mergeEncoding_def overriden_filter Let_def keys_def)

lemma mergeEncoding_not_empty: "fst (mergeEncoding po eo) \<noteq> Some []"
  by (auto simp: mergeEncoding_def Let_def keys_def)

text \<open>
  Claim C4, as the code has it. A parent encoding and a child encoding (two well-formed
  objects) are merged by \<^verbatim>\<open>mergeEncoding\<close>: every key of the child has the child's value
  in the merged encoding, every other key of the parent keeps the parent's value; the
  keys of the parent whose value in the child is truthy are reported, all of them and in
  the parent's order, in one single warning, and there is no warning when there is no
  such key; the result is \<open>undefined\<close> exactly when both encodings are empty, and never
  an empty encoding.
\<close>

theorem mergeEncoding_child_overrides_single_warning:
  assumes "distinct (keys pe)" and "distinct (keys e)"
  shows "(\<forall>k \<in> set (keys e). \<exists>m. fst (mergeEncoding (Some pe) (Some e)) = Some m \<and> lookup m k = lookup e k)
    \<and> (\<forall>k \<in> set (keys pe) - set (keys e).
          \<exists>m. fst (mergeEncoding (Some pe) (Some e)) = Some m \<and> lookup m k = lookup pe k)
    \<and> snd (mergeEncoding (Some pe) (Some e)) =
        (let reported = filter (\<lambda>k. truthy (lookup e k)) (keys pe)
         in if reported = [] then [] else [Warn (EncodingOverridden reported)])
    \<and> length (snd (mergeEncoding (Some pe) (Some e))) \<le> 1
    \<and> (fst (mergeEncoding (Some pe) (Some e)) = None \<longleftrightarrow> pe = [] \<and> e = [])
    \<and> fst (mergeEncoding (Some pe) (Some e)) \<noteq> Some []"
proof -
  let ?m = "spread (spread [] pe) e"
  have pe: "spread [] pe = pe" using assms(1) by (rule spread_Nil_left)
  have lk: "\<And>k. lookup ?m k = (if k \<in> set (keys e) then lookup e k else lookup pe k)"
    using lookup_spread[OF assms(2)] pe by simp
  have ne: "?m = [] \<longleftrightarrow> pe = [] \<and> e = []"
    by (simp add: spread_Nil_iff)
  have a: "\<forall>k \<in> set (keys e). \<exists>m. fst (mergeEncoding (Some pe) (Some e)) = Some m \<and> lookup m k = lookup e k"
  proof
    fix k assume k: "k \<in> set (keys e)"
    then have "e \<noteq> []" by (auto simp: keys_def)
    then have "fst (mergeEncoding (Some pe) (Some e)) = Some ?m"
      by (simp add: mergeEncoding_Some_Some ne)
    moreover have "lookup ?m k = lookup e k" using k by (simp add: lk)
    ultimately show "\<exists>m. fst (mergeEncoding (Some pe) (Some e)) = Some m \<and> lookup m k = lookup e k"
      by blast
  qed
  have b: "\<forall>k \<in> set (keys pe) - set (keys e).
          \<exists>m. fst (mergeEncoding (Some pe) (Some e)) = Some m \<and> lookup m k = lookup pe k"
  proof
    fix k assume k: "k \<in> set (keys pe) - set (keys e)"
    then have "pe \<noteq> []" by (auto simp: keys_def)
    then have "fst (mergeEncoding (Some pe) (Some e)) = Some ?m"
      by (simp add: mergeEncoding_Some_Some ne)
    moreover have "lookup ?m k = lookup pe k" using k by (simp add: lk)
    ultimately show "\<exists>m. fst (mergeEncoding (Some pe) (Some e)) = Some m \<and> lookup m k = lookup pe k"
      by blast
  qed
  have c: "snd (mergeEncoding (Some pe) (Some e)) =
        (let reported = filter (\<lambda>k. truthy (lookup e k)) (keys pe)
         in if reported = [] then [] else [Warn (EncodingOverridden reported)])"
    by (simp add: mergeEncoding_Some_Some Let_def)
  have d: "length (snd (mergeEncoding (Some pe) (Some e))) \<le> 1"
    by (simp add: mergeEncoding_Some_Some)
  have e: "fst (mergeEncoding (Some pe) (Some e)) = None \<longleftrightarrow> pe = [] \<and> e = []"
    by (simp add: mergeEncoding_Some_Some ne)
  show ?thesis using a b c d e mergeEncoding_not_empty by blast
qed


text \<open>
  The merge of the parent \<^verbatim>\<open>{x: A, y: B}\<close> with the child \<^verbatim>\<open>{x: C}\<close>: the merged
  encoding has \<open>C\<close> at \<open>x\<close> and \<open>B\<close> at \<open>y\<close>, and one warning lists \<open>x\<close>.
\<close>

theorem mergeEncoding_child_overrides_single_warning_witness:
  "distinct (keys [(''x'', JStr ''A''), (''y'', JStr ''B'')]) \<and> distinct (keys [(''x'', JStr ''C'')])
   \<and> (\<exists>m. fst (mergeEncoding (Some [(''x'', JStr ''A''), (''y'', JStr ''B'')]) (Some [(''x'', JStr ''C'')])) = Some m
          \<and> lookup m ''x'' = JStr ''C'' \<and> lookup m ''y'' = JStr ''B'')
   \<and> snd (mergeEncoding (Some [(''x'', JStr ''A''), (''y'', JStr ''B'')]) (Some [(''x'', JStr ''C'')]))
       = [Warn (EncodingOverridden [''x''])]"
proof -
  have h1: "distinct (keys [(''x'', JStr ''A''), (''y'', JStr ''B'')])" by (simp add: keys_def)
  have h2: "distinct (keys [(''x'', JStr ''C'')])" by (simp add: keys_def)
  from mergeEncoding_child_overrides_single_warning[OF h1 h2] h1 h2
  show ?thesis by (auto simp: keys_def lookup_def)
qed


text \<open>
  Claim C4 as stated fails where the child gives a key of the parent a falsy value, which
  the type of an encoding allows (\<^verbatim>\<open>tooltip: null\<close>): the child's \<open>null\<close> overrides
  the parent's definition in the merged encoding, and no warning reports it.
\<close>

theorem mergeEncoding_null_child_not_reported:
  "mergeEncoding (Some [(''tooltip'', JObj [(''field'', JStr ''a'')])]) (Some [(''tooltip'', JNull)])
     = (Some [(''tooltip'', JNull)], [])"
  by (simp add: mergeEncoding_def spread_def keys_def lookup_def)

section \<open>The chain of the non-facet unit normalizers\<close>

lemma mapUnit_loop_find:
  "mapUnit_loop env ns u p =
     (case find (\<lambda>nz. hasMatchingType env nz u (p_config p)) ns of
        None \<Rightarrow> (Unit u, map (\<lambda>nz. HasMatchingType nz u) ns)
      | Some nz \<Rightarrow>
          (run env nz u p,
           map (\<lambda>n. HasMatchingType n u)
               (takeWhile (\<lambda>n. \<not> hasMatchingType env n u (p_config p)) ns)
           @ [HasMatchingType nz u, Run nz u]))"
  by (induction ns) (auto split: option.splits)

text \<open>
  Claim C7. A unit that reaches the chain (no parent encoding and no parent projection in
  the context) is given, after the substitution of the repeater bindings into its
  encoding, to the normalizers in the order box plot, error bar, error band, path overlay,
  ranged line to rule, range step. The match predicates are called in this order up to
  the first that holds; that normalizer's expansion is the result and nothing of the
  chain is called after it. When none matches, every predicate has been called once and
  the unit, with the substituted encoding, is the result.
\<close>

theorem mapUnit_first_match_wins:
  assumes "p_parentEncoding params = None" and "\<not> truthy (p_parentProjection params)"
  shows "nonFacetUnitNormalizers = [BoxPlot, ErrorBar, ErrorBand, PathOverlay, RuleForRangedLine, RangeStep]
    \<and> mapUnit env spec params =
       (let u = spec\<lparr>u_encoding := replaceRepeaterInEncoding env (u_encoding spec) (p_repeater params)\<rparr>;
            matches = (\<lambda>nz. hasMatchingType env nz u (p_config params))
        in case find matches nonFacetUnitNormalizers of
             None \<Rightarrow> (Unit u, map (\<lambda>nz. HasMatchingType nz u) nonFacetUnitNormalizers)
           | Some nz \<Rightarrow>
               (run env nz u params,
                map (\<lambda>n. HasMatchingType n u) (takeWhile (\<lambda>n. \<not> matches n) nonFacetUnitNormalizers)
                @ [HasMatchingType nz u, Run nz u]))"
proof -
  have "mapUnit env spec params =
      mapUnit_loop env nonFacetUnitNormalizers
        (spec\<lparr>u_encoding := replaceRepeaterInEncoding env (u_encoding spec) (p_repeater params)\<rparr>) params"
    using assms by (simp add: Let_def)
  then show ?thesis
    by (simp add: mapUnit_loop_find Let_def nonFacetUnitNormalizers_def[symmetric])
qed


text \<open>
  With the sample collaborators, a unit with the mark \<^verbatim>\<open>errorbar\<close> matches the error bar
  and the path overlay normalizers: the error bar normalizer expands it, after the box
  plot predicate and its own, and the path overlay normalizer is never called.
\<close>

theorem mapUnit_first_match_wins_witness:
  "p_parentEncoding (config_only JNull) = None \<and> \<not> truthy (p_parentProjection (config_only JNull))
   \<and> mapUnit sample_env (sample_unit ''errorbar'' [(''y'', JStr ''B'')]) (config_only JNull) =
       (Layer [] None JUndefined [(''description'', JStr ''expanded'')],
        [HasMatchingType BoxPlot (sample_unit ''errorbar'' [(''y'', JStr ''B'')]),
         HasMatchingType ErrorBar (sample_unit ''errorbar'' [(''y'', JStr ''B'')]),
         Run ErrorBar (sample_unit ''errorbar'' [(''y'', JStr ''B'')])])"
proof -
  have h1: "p_parentEncoding (config_only JNull) = None" by (simp add: config_only_def)
  have h2: "\<not> truthy (p_parentProjection (config_only JNull))" by (simp add: config_only_def)
  from mapUnit_first_match_wins[OF h1 h2, of sample_env "sample_unit ''errorbar'' [(''y'', JStr ''B'')]"] h1 h2
  show ?thesis by (simp add: sample_env_def sample_unit_def Let_def nonFacetUnitNormalizers_def config_only_def)
qed

text \<open>
  Claim C2, as the code has it. A unit normalized with a parent encoding or a truthy
  parent projection in the context is merged with them (a warning for the overridden
  projection, then one for the overridden encoding keys), and the merged unit is then
  normalized by \<^verbatim>\<open>mapUnit\<close> again under the context \<^verbatim>\<open>{config}\<close>: the chain is applied
  to the merged unit, the first normalizer that matches it expands it, and the merged unit
  is the result only when none matches.
\<close>

theorem mapUnit_with_parent_runs_chain_on_merged_unit:
  assumes "p_parentEncoding params \<noteq> None \<or> truthy (p_parentProjection params)"
  shows "let u1 = spec\<lparr>u_encoding := replaceRepeaterInEncoding env (u_encoding spec) (p_repeater params)\<rparr>;
             (mergedProjection, log1) = mergeProjection (p_parentProjection params) (u_projection spec);
             (mergedEncoding, log2) =
                mergeEncoding (p_parentEncoding params)
                  (replaceRepeaterInEncoding env (u_encoding u1) (p_repeater params));
             u2 = (if truthy mergedProjection then u1\<lparr>u_projection := mergedProjection\<rparr> else u1);
             u3 = (case mergedEncoding of Some e \<Rightarrow> u2\<lparr>u_encoding := Some e\<rparr> | None \<Rightarrow> u2);
             merged = u3\<lparr>u_encoding := replaceRepeaterInEncoding env (u_encoding u3) None\<rparr>;
             cfg = config_only (p_config params);
             matches = (\<lambda>nz. hasMatchingType env nz merged (p_config params))
         in mapUnit env spec params =
              (case find matches nonFacetUnitNormalizers of
                 None \<Rightarrow>
                   (Unit merged,
                    log1 @ log2 @ map (\<lambda>nz. HasMatchingType nz merged) nonFacetUnitNormalizers)
               | Some nz \<Rightarrow>
                   (run env nz merged cfg,
                    log1 @ log2
                    @ map (\<lambda>n. HasMatchingType n merged)
                        (takeWhile (\<lambda>n. \<not> matches n) nonFacetUnitNormalizers)
                    @ [HasMatchingType nz merged, Run nz merged]))"
proof -
  have c: "p_parentEncoding (config_only c) = None" "\<not> truthy (p_parentProjection (config_only c))"
    "p_repeater (config_only c) = None" "p_config (config_only c) = c" for c
    by (simp_all add: config_only_def)
  have inner: "mapUnit env u (config_only c) =
      mapUnit_loop env nonFacetUnitNormalizers
        (u\<lparr>u_encoding := replaceRepeaterInEncoding env (u_encoding u) None\<rparr>) (config_only c)" for u c
    by (simp add: c Let_def)
  show ?thesis
    using assms
    by (auto simp add: Let_def inner mapUnit_loop_find c split: prod.splits option.splits)
qed


text \<open>
  A point unit \<^verbatim>\<open>{x: C, y: B}\<close> under the parent encoding \<^verbatim>\<open>{x: A}\<close>: one warning for
  \<open>x\<close>, then the six match predicates on the merged unit, which is the result.
\<close>

theorem mapUnit_with_parent_runs_chain_on_merged_unit_witness:
  "p_parentEncoding ((config_only JNull)\<lparr>p_parentEncoding := Some [(''x'', JStr ''A'')]\<rparr>)
     = Some [(''x'', JStr ''A'')]
   \<and> mapUnit sample_env (sample_unit ''point'' [(''x'', JStr ''C''), (''y'', JStr ''B'')])
         ((config_only JNull)\<lparr>p_parentEncoding := Some [(''x'', JStr ''A'')]\<rparr>) =
       (Unit (sample_unit ''point'' [(''x'', JStr ''C''), (''y'', JStr ''B'')]),
        Warn (EncodingOverridden [''x''])
        # map (\<lambda>nz. HasMatchingType nz (sample_unit ''point'' [(''x'', JStr ''C''), (''y'', JStr ''B'')]))
            [BoxPlot, ErrorBar, ErrorBand, PathOverlay, RuleForRangedLine, RangeStep])"
proof -
  have h: "p_parentEncoding ((config_only JNull)\<lparr>p_parentEncoding := Some [(''x'', JStr ''A'')]\<rparr>) \<noteq> None
      \<or> truthy (p_parentProjection ((config_only JNull)\<lparr>p_parentEncoding := Some [(''x'', JStr ''A'')]\<rparr>))"
    by simp
  from mapUnit_with_parent_runs_chain_on_merged_unit[OF h, of sample_env
      "sample_unit ''point'' [(''x'', JStr ''C''), (''y'', JStr ''B'')]"] h
  show ?thesis
    by (simp add: sample_env_def sample_unit_def Let_def nonFacetUnitNormalizers_def config_only_def
        mergeEncoding_def mergeProjection_def coalesce_def nullish_def spread_def keys_def lookup_def)
qed

text \<open>
  Claim C2 as stated fails: for a unit with the mark \<^verbatim>\<open>errorbar\<close> under the parent
  encoding \<^verbatim>\<open>{x: A}\<close>, the match predicates of the chain and the expansion of the error
  bar normalizer are called on the merged unit, and the expansion is returned, not the
  merged unit.
\<close>

theorem mapUnit_with_parent_encoding_expands_merged_unit:
  "mapUnit sample_env (sample_unit ''errorbar'' [(''y'', JStr ''B'')])
      ((config_only JNull)\<lparr>p_parentEncoding := Some [(''x'', JStr ''A'')]\<rparr>) =
     (Layer [] None JUndefined [(''description'', JStr ''expanded'')],
      [HasMatchingType BoxPlot (sample_unit ''errorbar'' [(''x'', JStr ''A''), (''y'', JStr ''B'')]),
       HasMatchingType ErrorBar (sample_unit ''errorbar'' [(''x'', JStr ''A''), (''y'', JStr ''B'')]),
       Run ErrorBar (sample_unit ''errorbar'' [(''x'', JStr ''A''), (''y'', JStr ''B'')])])"
  by (simp add: sample_env_def sample_unit_def Let_def nonFacetUnitNormalizers_def config_only_def
        mergeEncoding_def mergeProjection_def coalesce_def nullish_def spread_def keys_def lookup_def)

section \<open>Expanding a repeat\<close>

lemma for_each_Inr:
  "(\<And>x. x \<in> set xs \<Longrightarrow> body x = Inr (f x, g x)) \<Longrightarrow>
   for_each xs body = Inr (concat (map f xs), concat (map g xs))"
  by (induction xs) auto

lemma other_props_map_other: "other_props (map_other f s) = f (other_props s)"
  by (cases s) auto

lemma map_other_comp: "map_other f (map_other g s) = map_other (\<lambda>ob. f (g ob)) s"
  by (cases s) auto

lemma lookup_omit: "lookup (omit ob ks) k = (if k \<in> set ks then JUndefined else lookup ob k)"
  by (induction ob) (auto simp: lookup_def omit_def)

lemma keys_omit: "set (keys (omit ob ks)) = set (keys ob) - set ks"
  by (auto simp: keys_def omit_def)

lemma lookup_spread_single: "lookup (spread a [(k, v)]) k' = (if k' = k then v else lookup a k')"
  by (simp add: spread_def lookup_assign)

lemma repeat_children:
  assumes "\<And>rv r c. rv \<in> set rvs \<Longrightarrow> r \<in> set rs \<Longrightarrow> c \<in> set cs \<Longrightarrow>
      this_map childSpec (params\<lparr>p_repeater := Some \<lparr>rv_repeat = rv, rv_row = r, rv_column = c\<rparr>\<rparr>)
        = Inr (norm rv r c)"
  shows "for_each rvs (\<lambda>repeatValue. for_each rs (\<lambda>rowValue. for_each cs (\<lambda>columnValue.
           repeat_child env this_map childSpec params repeatValue rowValue columnValue)))
     = Inr ([map_other (\<lambda>ob. omit (assign ob ''name'' (JStr (child_name env rv r c))) [''data''])
               (fst (norm rv r c)). rv \<leftarrow> rvs, r \<leftarrow> rs, c \<leftarrow> cs],
            concat (map (\<lambda>rv. concat (map (\<lambda>r. concat (map (\<lambda>c. snd (norm rv r c)) cs)) rs)) rvs))"
proof -
  have inner: "for_each cs (\<lambda>columnValue. repeat_child env this_map childSpec params rv r columnValue)
      = Inr (concat (map (\<lambda>c. [map_other (\<lambda>ob. omit (assign ob ''name'' (JStr (child_name env rv r c))) [''data''])
               (fst (norm rv r c))]) cs), concat (map (\<lambda>c. snd (norm rv r c)) cs))"
    if "rv \<in> set rvs" "r \<in> set rs" for rv r
    by (rule for_each_Inr)
      (simp add: repeat_child_def assms[OF that] Let_def map_other_comp split: prod.splits)
  have middle: "for_each rs (\<lambda>rowValue. for_each cs (\<lambda>columnValue.
           repeat_child env this_map childSpec params rv rowValue columnValue))
      = Inr (concat (map (\<lambda>r. concat (map (\<lambda>c. [map_other (\<lambda>ob. omit (assign ob ''name'' (JStr (child_name env rv r c))) [''data''])
               (fst (norm rv r c))]) cs)) rs), concat (map (\<lambda>r. concat (map (\<lambda>c. snd (norm rv r c)) cs)) rs))"
    if "rv \<in> set rvs" for rv
    by (rule for_each_Inr) (simp add: inner[OF that])
  have outer: "for_each rvs (\<lambda>repeatValue. for_each rs (\<lambda>rowValue. for_each cs (\<lambda>columnValue.
           repeat_child env this_map childSpec params repeatValue rowValue columnValue)))
     = Inr (concat (map (\<lambda>rv. concat (map (\<lambda>r. concat (map (\<lambda>c. [map_other (\<lambda>ob. omit (assign ob ''name'' (JStr (child_name env rv r c))) [''data''])
               (fst (norm rv r c))]) cs)) rs)) rvs),
            concat (map (\<lambda>rv. concat (map (\<lambda>r. concat (map (\<lambda>c. snd (norm rv r c)) cs)) rs)) rvs))"
    by (rule for_each_Inr) (simp add: middle)
  show ?thesis unfolding outer by (simp add: concat_map_singleton)
qed


lemma mapRepeat_result:
  assumes "\<And>rv r c. rv \<in> set (repeat_values repeat (p_repeater params)) \<Longrightarrow>
      r \<in> set (repeat_row repeat (p_repeater params)) \<Longrightarrow>
      c \<in> set (repeat_column repeat (p_repeater params)) \<Longrightarrow>
      this_map childSpec (params\<lparr>p_repeater := Some \<lparr>rv_repeat = rv, rv_row = r, rv_column = c\<rparr>\<rparr>)
        = Inr (norm rv r c)"
  shows "mapRepeat env this_map repeat childSpec props params =
     Inr (Concat
            [map_other (\<lambda>ob. omit (assign ob ''name'' (JStr (child_name env rv r c))) [''data''])
               (fst (norm rv r c)).
               rv \<leftarrow> repeat_values repeat (p_repeater params),
               r \<leftarrow> repeat_row repeat (p_repeater params),
               c \<leftarrow> repeat_column repeat (p_repeater params)]
            (spread (spread [(''data'', coalesce (lookup props ''data'') (lookup (other_props childSpec) ''data''))]
                       (omit props [''data'']))
               [(''columns'',
                 case repeat of
                   RepeatArray vs \<Rightarrow> lookup props ''columns''
                 | RepeatMapping r (Some c) \<Rightarrow> JNum (int (length c))
                 | RepeatMapping r None \<Rightarrow> JNum 1)]),
          (if \<not> isArray repeat \<and> truthy (lookup props ''columns'')
           then [Warn (ColumnsNotSupportByRowCol ''repeat'')] else [])
          @ concat (map (\<lambda>rv. concat (map (\<lambda>r. concat (map (\<lambda>c. snd (norm rv r c))
                (repeat_column repeat (p_repeater params))))
                (repeat_row repeat (p_repeater params))))
                (repeat_values repeat (p_repeater params))))"
proof -
  have ch: "for_each (repeat_values repeat (p_repeater params)) (\<lambda>repeatValue.
              for_each (repeat_row repeat (p_repeater params)) (\<lambda>rowValue.
                for_each (repeat_column repeat (p_repeater params)) (\<lambda>columnValue.
                  repeat_child env this_map childSpec params repeatValue rowValue columnValue)))
     = Inr ([map_other (\<lambda>ob. omit (assign ob ''name'' (JStr (child_name env rv r c))) [''data''])
               (fst (norm rv r c)).
               rv \<leftarrow> repeat_values repeat (p_repeater params),
               r \<leftarrow> repeat_row repeat (p_repeater params),
               c \<leftarrow> repeat_column repeat (p_repeater params)],
            concat (map (\<lambda>rv. concat (map (\<lambda>r. concat (map (\<lambda>c. snd (norm rv r c))
                (repeat_column repeat (p_repeater params))))
                (repeat_row repeat (p_repeater params))))
                (repeat_values repeat (p_repeater params))))"
    by (rule repeat_children) (rule assms)
  show ?thesis
    unfolding mapRepeat_def Let_def ch
    by (cases repeat) (auto split: option.splits)
qed


lemma length_concat_const:
  "(\<And>x. x \<in> set xs \<Longrightarrow> length (f x) = k) \<Longrightarrow> length (concat (map f xs)) = length xs * k"
  by (induction xs) auto

lemma length_cross3:
  "length [f a b c. a \<leftarrow> as, b \<leftarrow> bs, c \<leftarrow> cs] = length as * length bs * length cs"
proof -
  have "length (concat (map (\<lambda>b. map (f a b) cs) bs)) = length bs * length cs" for a
    by (rule length_concat_const) simp
  then have "length (concat (map (\<lambda>a. concat (map (\<lambda>b. map (f a b) cs) bs)) as))
      = length as * (length bs * length cs)"
    by (intro length_concat_const) simp
  then show ?thesis by (simp add: mult.assoc)
qed

lemma name_of_repeat_child:
  "lookup (other_props (map_other (\<lambda>ob. omit (assign ob ''name'' v) [''data'']) s)) ''name'' = v"
  by (simp add: other_props_map_other lookup_omit lookup_assign)

lemma sample_child_normal:
  "map_spec sample_env (Suc (Suc n)) sample_child (p\<lparr>p_parentEncoding := None, p_parentProjection := JUndefined\<rparr>)
     = Inr (sample_child, sample_log)"
  by (simp add: sample_child_def sample_log_def sample_env_def sample_unit_def super_map_def
      Let_def nonFacetUnitNormalizers_def lookup_def ROW_def COLUMN_def FACET_def)

lemma sample_child_normal_config:
  "map_spec sample_env (Suc (Suc n)) sample_child ((config_only c)\<lparr>p_repeater := r\<rparr>)
     = Inr (sample_child, sample_log)"
  using sample_child_normal[of n "(config_only c)\<lparr>p_repeater := r\<rparr>"]
  by (simp add: config_only_def)

text \<open>
  Claim C3. Whenever \<^verbatim>\<open>this.map\<close> returns for the inner specification under each
  repeater binding of the cross product, \<^verbatim>\<open>mapRepeat\<close> returns a concatenation with
  exactly one child for each element of the cross product of the repeat values, the row
  values and the column values, the repeat values in the outer loop, the row values in
  the middle and the column values in the inner one. A sequence that is not declared is
  the single inherited binding of the repeater (or null). The name of a child is the
  concatenation of the tokens \<^verbatim>\<open>__repeat_\<close>, \<^verbatim>\<open>__row_\<close> and \<^verbatim>\<open>__column_\<close>, each
  followed by its sanitized value, and a token is there only for a value that is not
  null (and not the empty string).
\<close>

theorem mapRepeat_cross_product:
  assumes "\<forall>rv \<in> set (repeat_values repeat (p_repeater params)).
           \<forall>r \<in> set (repeat_row repeat (p_repeater params)).
           \<forall>c \<in> set (repeat_column repeat (p_repeater params)).
             this_map childSpec (params\<lparr>p_repeater := Some \<lparr>rv_repeat = rv, rv_row = r, rv_column = c\<rparr>\<rparr>)
               = Inr (norm rv r c)"
  shows "\<exists>children props' log1.
      mapRepeat env this_map repeat childSpec props params = Inr (Concat children props', log1)
      \<and> children =
          [map_other (\<lambda>ob. omit (assign ob ''name'' (JStr (child_name env rv r c))) [''data''])
             (fst (norm rv r c)).
             rv \<leftarrow> repeat_values repeat (p_repeater params),
             r \<leftarrow> repeat_row repeat (p_repeater params),
             c \<leftarrow> repeat_column repeat (p_repeater params)]
      \<and> length children =
          length (repeat_values repeat (p_repeater params))
          * length (repeat_row repeat (p_repeater params))
          * length (repeat_column repeat (p_repeater params))
      \<and> map (\<lambda>child. lookup (other_props child) ''name'') children =
          [JStr (name_token env ''__repeat_'' rv @ name_token env ''__row_'' r
                 @ name_token env ''__column_'' c).
             rv \<leftarrow> repeat_values repeat (p_repeater params),
             r \<leftarrow> repeat_row repeat (p_repeater params),
             c \<leftarrow> repeat_column repeat (p_repeater params)]
      \<and> name_token env prefix None = []
      \<and> name_token env prefix (Some s) = (if s = [] then [] else prefix @ varName env s)
      \<and> repeat_values repeat (p_repeater params) =
          (case repeat of
             RepeatArray vs \<Rightarrow> map Some vs
           | RepeatMapping rs cs \<Rightarrow>
               [case p_repeater params of None \<Rightarrow> None | Some b \<Rightarrow> rv_repeat b])
      \<and> repeat_row repeat (p_repeater params) =
          (case repeat of
             RepeatMapping (Some rs) cs \<Rightarrow> map Some rs
           | _ \<Rightarrow> [case p_repeater params of None \<Rightarrow> None | Some b \<Rightarrow> rv_row b])
      \<and> repeat_column repeat (p_repeater params) =
          (case repeat of
             RepeatMapping rs (Some cs) \<Rightarrow> map Some cs
           | _ \<Rightarrow> [case p_repeater params of None \<Rightarrow> None | Some b \<Rightarrow> rv_column b])"
proof -
  let ?children = "[map_other (\<lambda>ob. omit (assign ob ''name'' (JStr (child_name env rv r c))) [''data''])
             (fst (norm rv r c)).
             rv \<leftarrow> repeat_values repeat (p_repeater params),
             r \<leftarrow> repeat_row repeat (p_repeater params),
             c \<leftarrow> repeat_column repeat (p_repeater params)]"
  from assms have calls: "\<And>rv r c. rv \<in> set (repeat_values repeat (p_repeater params)) \<Longrightarrow>
      r \<in> set (repeat_row repeat (p_repeater params)) \<Longrightarrow>
      c \<in> set (repeat_column repeat (p_repeater params)) \<Longrightarrow>
      this_map childSpec (params\<lparr>p_repeater := Some \<lparr>rv_repeat = rv, rv_row = r, rv_column = c\<rparr>\<rparr>)
        = Inr (norm rv r c)"
    by blast
  have res: "\<exists>props' log1. mapRepeat env this_map repeat childSpec props params
      = Inr (Concat ?children props', log1)"
    using mapRepeat_result[where this_map=this_map and childSpec=childSpec and params=params
        and norm=norm and repeat=repeat and env=env and props=props, OF calls]
    by blast
  have len: "length ?children =
          length (repeat_values repeat (p_repeater params))
          * length (repeat_row repeat (p_repeater params))
          * length (repeat_column repeat (p_repeater params))"
    by (rule length_cross3)
  have names: "map (\<lambda>child. lookup (other_props child) ''name'') ?children =
          [JStr (name_token env ''__repeat_'' rv @ name_token env ''__row_'' r
                 @ name_token env ''__column_'' c).
             rv \<leftarrow> repeat_values repeat (p_repeater params),
             r \<leftarrow> repeat_row repeat (p_repeater params),
             c \<leftarrow> repeat_column repeat (p_repeater params)]"
    by (simp add: map_concat comp_def name_of_repeat_child child_name_def)
  have tok: "name_token env prefix None = []"
    "name_token env prefix (Some s) = (if s = [] then [] else prefix @ varName env s)"
    by (simp_all add: name_token_def)
  have seqs: "repeat_values repeat (p_repeater params) =
          (case repeat of
             RepeatArray vs \<Rightarrow> map Some vs
           | RepeatMapping rs cs \<Rightarrow>
               [case p_repeater params of None \<Rightarrow> None | Some b \<Rightarrow> rv_repeat b])"
      "repeat_row repeat (p_repeater params) =
          (case repeat of
             RepeatMapping (Some rs) cs \<Rightarrow> map Some rs
           | _ \<Rightarrow> [case p_repeater params of None \<Rightarrow> None | Some b \<Rightarrow> rv_row b])"
      "repeat_column repeat (p_repeater params) =
          (case repeat of
             RepeatMapping rs (Some cs) \<Rightarrow> map Some cs
           | _ \<Rightarrow> [case p_repeater params of None \<Rightarrow> None | Some b \<Rightarrow> rv_column b])"
    by (simp_all add: repeat_values_def repeat_row_def repeat_column_def
        split: repeat_def.splits option.splits)
  from res obtain props' log1 where
    "mapRepeat env this_map repeat childSpec props params = Inr (Concat ?children props', log1)"
    by blast
  with len names tok seqs show ?thesis by blast
qed

text \<open>
  The rows \<^verbatim>\<open>[r1, r2]\<close> and the columns \<^verbatim>\<open>[c1, c2]\<close> give four children, in the order
  (r1, c1), (r1, c2), (r2, c1), (r2, c2).
\<close>

theorem mapRepeat_cross_product_witness:
  "\<exists>props' log1.
     mapRepeat sample_env (map_spec sample_env 2)
       (RepeatMapping (Some [''r1'', ''r2'']) (Some [''c1'', ''c2''])) sample_child [] (config_only JNull)
     = Inr (Concat [sample_named ''__row_r1__column_c1'', sample_named ''__row_r1__column_c2'',
                    sample_named ''__row_r2__column_c1'', sample_named ''__row_r2__column_c2'']
              props', log1)"
proof -
  have h: "\<forall>rv \<in> set (repeat_values (RepeatMapping (Some [''r1'', ''r2'']) (Some [''c1'', ''c2'']))
                        (p_repeater (config_only JNull))).
           \<forall>r \<in> set (repeat_row (RepeatMapping (Some [''r1'', ''r2'']) (Some [''c1'', ''c2'']))
                        (p_repeater (config_only JNull))).
           \<forall>c \<in> set (repeat_column (RepeatMapping (Some [''r1'', ''r2'']) (Some [''c1'', ''c2'']))
                        (p_repeater (config_only JNull))).
             map_spec sample_env 2 sample_child
               ((config_only JNull)\<lparr>p_repeater := Some \<lparr>rv_repeat = rv, rv_row = r, rv_column = c\<rparr>\<rparr>)
               = Inr (sample_child, sample_log)"
    by (simp add: numeral_2_eq_2 sample_child_normal_config del: map_spec.simps)
  from mapRepeat_cross_product[where norm="\<lambda>rv r c. (sample_child, sample_log)"
      and this_map="map_spec sample_env 2" and env=sample_env and props="[]"
      and repeat="RepeatMapping (Some [''r1'', ''r2'']) (Some [''c1'', ''c2''])"
      and params="config_only JNull" and childSpec=sample_child, OF h]
  show ?thesis
    by (auto simp: repeat_values_def repeat_row_def repeat_column_def config_only_def
        sample_child_def sample_named_def sample_unit_def child_name_def name_token_def
        sample_env_def omit_def)
qed

text \<open>
  Claim C1. The comment on the result of \<^verbatim>\<open>mapRepeat\<close> says that the data of the child
  specification should have precedence, as the claim does; the code writes
  \<^verbatim>\<open>data ?? childSpec.data\<close>, which takes the data of the repeat itself first. For a
  repeat with data of its own over a child with data of its own, the concatenation holds
  the data of the repeat, not the child's.
\<close>

theorem mapRepeat_wrapper_data_shadows_child_data:
  "mapRepeat sample_env (map_spec sample_env 2) (RepeatArray [''a''])
       sample_child [(''data'', JStr ''wrapper data'')] (config_only JNull)
     = Inr (Concat [sample_named ''__repeat_a'']
              [(''data'', JStr ''wrapper data''), (''columns'', JUndefined)],
            sample_log)"
proof -
  have calls: "map_spec sample_env 2 sample_child
        ((config_only JNull)\<lparr>p_repeater := Some \<lparr>rv_repeat = rv, rv_row = r, rv_column = c\<rparr>\<rparr>)
      = Inr (sample_child, sample_log)" for rv r c
    by (simp add: numeral_2_eq_2 sample_child_normal_config del: map_spec.simps)
  show ?thesis
    unfolding mapRepeat_result[where norm="\<lambda>rv r c. (sample_child, sample_log)"
        and this_map="map_spec sample_env 2", OF calls]
    by (simp add: repeat_values_def repeat_row_def repeat_column_def
        config_only_def coalesce_def nullish_def lookup_def omit_def spread_def
        child_name_def name_token_def sample_env_def sample_child_def sample_named_def
        sample_unit_def)
qed

section \<open>Explicit column counts\<close>

lemma mapFacet_columns_dropped:
  assumes "isFacetMapping facet" and "truthy (lookup props ''columns'')"
    and "this_map child params = Inr (c, clog)"
  shows "mapFacet env this_map facet child props params =
     Inr (Facet facet c (omit props [''columns'']), Warn (ColumnsNotSupportByRowCol ''facet'') # clog)"
  using assms by (simp add: mapFacet_def super_mapFacet_def after_log_def)

text \<open>
  Claim C6, as the code has it. A facet whose definition is the row/column mapping and
  whose explicit column count is truthy (a number other than zero) is handed on without
  its \<^verbatim>\<open>columns\<close>, after one warning. A repeat gives a concatenation whose
  \<^verbatim>\<open>columns\<close> is, for the row/column form, the number of declared column values, and 1
  when no column sequence is declared, with one warning when the repeat has an explicit
  column count that is truthy; for the flat form it is the explicit column count of the
  repeat, with no warning.
\<close>

theorem explicit_columns_with_row_column_form:
  "(isFacetMapping facet \<and> truthy (lookup props ''columns'') \<and> this_map child params = Inr (c, clog) \<longrightarrow>
      mapFacet env this_map facet child props params =
        Inr (Facet facet c (omit props [''columns'']), Warn (ColumnsNotSupportByRowCol ''facet'') # clog)
      \<and> ''columns'' \<notin> set (keys (omit props [''columns'']))
      \<and> lookup (omit props [''columns'']) ''columns'' = JUndefined)
   \<and> ((\<forall>rv \<in> set (repeat_values repeat (p_repeater rparams)).
        \<forall>r \<in> set (repeat_row repeat (p_repeater rparams)).
        \<forall>c \<in> set (repeat_column repeat (p_repeater rparams)).
          this_map childSpec (rparams\<lparr>p_repeater := Some \<lparr>rv_repeat = rv, rv_row = r, rv_column = c\<rparr>\<rparr>)
            = Inr (norm rv r c)) \<longrightarrow>
       (\<exists>children props'.
          mapRepeat env this_map repeat childSpec rprops rparams =
            Inr (Concat children props',
                 (if \<not> isArray repeat \<and> truthy (lookup rprops ''columns'')
                  then [Warn (ColumnsNotSupportByRowCol ''repeat'')] else [])
                 @ concat (map (\<lambda>rv. concat (map (\<lambda>r. concat (map (\<lambda>c. snd (norm rv r c))
                     (repeat_column repeat (p_repeater rparams))))
                     (repeat_row repeat (p_repeater rparams))))
                     (repeat_values repeat (p_repeater rparams))))
          \<and> lookup props' ''columns'' =
              (case repeat of
                 RepeatArray vs \<Rightarrow> lookup rprops ''columns''
               | RepeatMapping rs (Some cs) \<Rightarrow> JNum (int (length cs))
               | RepeatMapping rs None \<Rightarrow> JNum 1)))"
proof (intro conjI impI)
  assume a: "isFacetMapping facet \<and> truthy (lookup props ''columns'') \<and> this_map child params = Inr (c, clog)"
  then show "mapFacet env this_map facet child props params =
        Inr (Facet facet c (omit props [''columns'']), Warn (ColumnsNotSupportByRowCol ''facet'') # clog)"
    by (simp add: mapFacet_columns_dropped)
  show "''columns'' \<notin> set (keys (omit props [''columns'']))"
    by (simp add: keys_omit)
  show "lookup (omit props [''columns'']) ''columns'' = JUndefined"
    by (simp add: lookup_omit)
next
  assume "\<forall>rv \<in> set (repeat_values repeat (p_repeater rparams)).
        \<forall>r \<in> set (repeat_row repeat (p_repeater rparams)).
        \<forall>c \<in> set (repeat_column repeat (p_repeater rparams)).
          this_map childSpec (rparams\<lparr>p_repeater := Some \<lparr>rv_repeat = rv, rv_row = r, rv_column = c\<rparr>\<rparr>)
            = Inr (norm rv r c)"
  then have calls: "\<And>rv r c. rv \<in> set (repeat_values repeat (p_repeater rparams)) \<Longrightarrow>
      r \<in> set (repeat_row repeat (p_repeater rparams)) \<Longrightarrow>
      c \<in> set (repeat_column repeat (p_repeater rparams)) \<Longrightarrow>
      this_map childSpec (rparams\<lparr>p_repeater := Some \<lparr>rv_repeat = rv, rv_row = r, rv_column = c\<rparr>\<rparr>)
        = Inr (norm rv r c)"
    by blast
  show "\<exists>children props'.
          mapRepeat env this_map repeat childSpec rprops rparams =
            Inr (Concat children props',
                 (if \<not> isArray repeat \<and> truthy (lookup rprops ''columns'')
                  then [Warn (ColumnsNotSupportByRowCol ''repeat'')] else [])
                 @ concat (map (\<lambda>rv. concat (map (\<lambda>r. concat (map (\<lambda>c. snd (norm rv r c))
                     (repeat_column repeat (p_repeater rparams))))
                     (repeat_row repeat (p_repeater rparams))))
                     (repeat_values repeat (p_repeater rparams))))
          \<and> lookup props' ''columns'' =
              (case repeat of
                 RepeatArray vs \<Rightarrow> lookup rprops ''columns''
               | RepeatMapping rs (Some cs) \<Rightarrow> JNum (int (length cs))
               | RepeatMapping rs None \<Rightarrow> JNum 1)"
    by (subst mapRepeat_result[where norm=norm and this_map=this_map and childSpec=childSpec
        and params=rparams and repeat=repeat and env=env and props=rprops, OF calls])
      (simp_all add: lookup_spread_single)
qed


text \<open>
  A row-faceted specification with two columns loses them with a warning; a repeat over
  two rows and two columns with three explicit columns warns and has two columns.
\<close>

theorem explicit_columns_with_row_column_form_witness:
  "mapFacet sample_env (map_spec sample_env 2) (FacetMapping [(''row'', JObj [(''field'', JStr ''a'')])])
       sample_child [(''columns'', JNum 2)] (config_only JNull)
     = Inr (Facet (FacetMapping [(''row'', JObj [(''field'', JStr ''a'')])]) sample_child [],
            Warn (ColumnsNotSupportByRowCol ''facet'') # sample_log)
   \<and> (\<exists>children props'.
         mapRepeat sample_env (map_spec sample_env 2)
             (RepeatMapping (Some [''r1'', ''r2'']) (Some [''c1'', ''c2'']))
             sample_child [(''columns'', JNum 3)] (config_only JNull)
           = Inr (Concat children props',
                  [Warn (ColumnsNotSupportByRowCol ''repeat''),
                   HasMatchingType BoxPlot
                     ((sample_unit ''point'' [(''x'', JStr ''A'')])\<lparr>u_other := [(''data'', JStr ''child data'')]\<rparr>)]
                  @ tl (sample_log @ sample_log @ sample_log @ sample_log))
         \<and> lookup props' ''columns'' = JNum 2)"
proof -
  have one: "map_spec sample_env 2 sample_child (config_only JNull) = Inr (sample_child, sample_log)"
    using sample_child_normal_config[where n=0 and c=JNull and r=None]
    by (simp add: numeral_2_eq_2 config_only_def del: map_spec.simps)
  have calls: "\<forall>rv \<in> set (repeat_values (RepeatMapping (Some [''r1'', ''r2'']) (Some [''c1'', ''c2'']))
                        (p_repeater (config_only JNull))).
           \<forall>r \<in> set (repeat_row (RepeatMapping (Some [''r1'', ''r2'']) (Some [''c1'', ''c2'']))
                        (p_repeater (config_only JNull))).
           \<forall>c \<in> set (repeat_column (RepeatMapping (Some [''r1'', ''r2'']) (Some [''c1'', ''c2'']))
                        (p_repeater (config_only JNull))).
             map_spec sample_env 2 sample_child
               ((config_only JNull)\<lparr>p_repeater := Some \<lparr>rv_repeat = rv, rv_row = r, rv_column = c\<rparr>\<rparr>)
               = Inr (sample_child, sample_log)"
    by (simp add: numeral_2_eq_2 sample_child_normal_config del: map_spec.simps)
  have pre: "isFacetMapping (FacetMapping [(''row'', JObj [(''field'', JStr ''a'')])])
      \<and> truthy (lookup [(''columns'', JNum 2)] ''columns'')
      \<and> map_spec sample_env 2 sample_child (config_only JNull) = Inr (sample_child, sample_log)"
    using one by (simp add: lookup_def)
  from explicit_columns_with_row_column_form[where norm="\<lambda>rv r c. (sample_child, sample_log)"
      and this_map="map_spec sample_env 2" and env=sample_env
      and facet="FacetMapping [(''row'', JObj [(''field'', JStr ''a'')])]"
      and props="[(''columns'', JNum 2)]" and child=sample_child and params="config_only JNull"
      and c=sample_child and clog=sample_log
      and repeat="RepeatMapping (Some [''r1'', ''r2'']) (Some [''c1'', ''c2''])"
      and rparams="config_only JNull" and childSpec=sample_child and rprops="[(''columns'', JNum 3)]"]
    pre calls
  show ?thesis
    by (simp add: omit_def lookup_def repeat_values_def repeat_row_def repeat_column_def
        config_only_def sample_log_def nonFacetUnitNormalizers_def
        del: map_spec.simps)
qed


text \<open>
  Claim C6 as stated fails for an explicit column count of zero, which the test
  \<^verbatim>\<open>isFacetMapping(facet) && spec.columns\<close> takes for no column count: the row-faceted
  specification keeps \<^verbatim>\<open>columns: 0\<close> and nothing is logged.
\<close>

theorem mapFacet_zero_columns_kept:
  "mapFacet sample_env (map_spec sample_env 2) (FacetMapping [(''row'', JObj [(''field'', JStr ''a'')])])
       sample_child [(''columns'', JNum 0)] (config_only JNull)
     = Inr (Facet (FacetMapping [(''row'', JObj [(''field'', JStr ''a'')])]) sample_child
              [(''columns'', JNum 0)],
            sample_log)"
proof -
  have one: "map_spec sample_env 2 sample_child (config_only JNull) = Inr (sample_child, sample_log)"
    using sample_child_normal_config[where n=0 and c=JNull and r=None]
    by (simp add: numeral_2_eq_2 config_only_def del: map_spec.simps)
  show ?thesis
    by (simp add: mapFacet_def super_mapFacet_def one lookup_def del: map_spec.simps)
qed

section \<open>Promoting the facet channels of a unit\<close>

lemma facet_mapping_fold:
  "fst (foldl (channel_step [(ROW, row), (COLUMN, column), (FACET, facet)]) ([], []) [ROW, COLUMN]) =
     (if truthy row
      then [(ROW, JObj (omit (props_of row) [''align'', ''center'', ''spacing'', ''columns'']))] else [])
     @ (if truthy column
        then [(COLUMN, JObj (omit (props_of column) [''align'', ''center'', ''spacing'', ''columns'']))]
        else [])"
  by (simp add: channel_step_def lookup_def ROW_def COLUMN_def FACET_def Let_def split: prod.splits)

lemma getFacetMappingAndLayout_row_column:
  assumes "truthy row \<or> truthy column"
  shows "\<exists>layout. getFacetMappingAndLayout env row column facet params =
     Inr ((FacetMapping
            ((if truthy row
              then [(ROW, JObj (omit (props_of row) [''align'', ''center'', ''spacing'', ''columns'']))] else [])
             @ (if truthy column
                then [(COLUMN, JObj (omit (props_of column) [''align'', ''center'', ''spacing'', ''columns'']))]
                else [])), layout),
          if truthy facet
          then [Warn (FacetChannelDropped
                  ((if truthy row then [ROW] else []) @ (if truthy column then [COLUMN] else [])))]
          else [])"
proof -
  obtain fm layout where f: "foldl (channel_step [(ROW, row), (COLUMN, column), (FACET, facet)]) ([], []) [ROW, COLUMN] = (fm, layout)"
    by (cases "foldl (channel_step [(ROW, row), (COLUMN, column), (FACET, facet)]) ([], []) [ROW, COLUMN]")
  have fm: "fm = (if truthy row
              then [(ROW, JObj (omit (props_of row) [''align'', ''center'', ''spacing'', ''columns'']))] else [])
             @ (if truthy column
                then [(COLUMN, JObj (omit (props_of column) [''align'', ''center'', ''spacing'', ''columns'']))]
                else [])"
    using facet_mapping_fold[of row column facet] unfolding f by simp
  have "getFacetMappingAndLayout env row column facet params =
     Inr ((FacetMapping fm, layout),
          if truthy facet
          then [Warn (FacetChannelDropped
                  ((if truthy row then [ROW] else []) @ (if truthy column then [COLUMN] else [])))]
          else [])"
    using assms unfolding getFacetMappingAndLayout_def Let_def f by simp
  then show ?thesis unfolding fm by blast
qed


text \<open>
  Claim C5. For a unit whose encoding has a row or a column channel together with a facet
  channel, the facet definition that \<^verbatim>\<open>getFacetMappingAndLayout\<close> computes, and that
  the facet returned by \<^verbatim>\<open>mapFacetedUnit\<close> carries, is the mapping of the row and column
  channels that are there (each without its layout properties); the facet channel is not
  part of it, and the warning that the facet channel is dropped is logged, first, with
  the row and column channels that take its place. The inner unit keeps the mark and has
  the encoding without the three channels.
\<close>

theorem facet_channel_dropped_for_row_column:
  assumes "u_encoding spec = Some enc"
    and "truthy (lookup enc ''row'') \<or> truthy (lookup enc ''column'')"
    and "truthy (lookup enc ''facet'')"
  shows "let row = lookup enc ''row'';
             column = lookup enc ''column'';
             facet = lookup enc ''facet'';
             facetMapping =
               (if truthy row
                then [(ROW, JObj (omit (props_of row) [''align'', ''center'', ''spacing'', ''columns'']))]
                else [])
               @ (if truthy column
                  then [(COLUMN, JObj (omit (props_of column) [''align'', ''center'', ''spacing'', ''columns'']))]
                  else []);
             dropped = Warn (FacetChannelDropped
                         ((if truthy row then [ROW] else []) @ (if truthy column then [COLUMN] else [])))
         in FACET \<notin> set (keys facetMapping)
          \<and> (\<exists>layout. getFacetMappingAndLayout env row column facet params =
                 Inr ((FacetMapping facetMapping, layout), [dropped]))
          \<and> (\<exists>inner props' more.
                 mapFacetedUnit env this_map spec params =
                   (case this_map (Unit inner) params of
                      Inl e \<Rightarrow> Inl e
                    | Inr (c, clog) \<Rightarrow>
                        Inr (Facet (FacetMapping facetMapping) c props', dropped # more @ clog))
                 \<and> u_mark inner = u_mark spec
                 \<and> u_encoding inner =
                     replaceRepeaterInEncoding env (Some (omit enc [''row'', ''column'', ''facet'']))
                       (p_repeater params)
                 \<and> (more = [] \<or> more = [Warn (ColumnsNotSupportByRowCol ''facet'')]))"
proof -
  define row where "row = lookup enc ''row''"
  define column where "column = lookup enc ''column''"
  define facet where "facet = lookup enc ''facet''"
  define facetMapping where "facetMapping =
               (if truthy row
                then [(ROW, JObj (omit (props_of row) [''align'', ''center'', ''spacing'', ''columns'']))]
                else [])
               @ (if truthy column
                  then [(COLUMN, JObj (omit (props_of column) [''align'', ''center'', ''spacing'', ''columns'']))]
                  else [])"
  define dropped where "dropped = Warn (FacetChannelDropped
                         ((if truthy row then [ROW] else []) @ (if truthy column then [COLUMN] else [])))"
  define inner where "inner =
     \<lparr>u_mark = u_mark spec,
      u_encoding = replaceRepeaterInEncoding env (Some (omit enc [''row'', ''column'', ''facet''])) (p_repeater params),
      u_projection = (if truthy (u_projection spec) then u_projection spec else JUndefined),
      u_width = (if truthy (u_width spec) then u_width spec else JUndefined),
      u_height = (if truthy (u_height spec) then u_height spec else JUndefined),
      u_view = (if truthy (u_view spec) then u_view spec else JUndefined),
      u_selection = (if truthy (u_selection spec) then u_selection spec else JUndefined),
      u_other = []\<rparr>"
  have rc: "truthy row \<or> truthy column" and f: "truthy facet"
    using assms by (simp_all add: row_def column_def facet_def)
  from getFacetMappingAndLayout_row_column[OF rc, of env facet params] f
  obtain layout where g: "getFacetMappingAndLayout env row column facet params =
      Inr ((FacetMapping facetMapping, layout), [dropped])"
    unfolding facetMapping_def dropped_def by auto
  have a: "FACET \<notin> set (keys facetMapping)"
    by (auto simp: facetMapping_def keys_def FACET_def ROW_def COLUMN_def)
  have m: "mapFacetedUnit env this_map spec params =
      after_log [dropped]
        (mapFacet env this_map (FacetMapping facetMapping) (Unit inner) (spread (u_other spec) layout) params)"
    using assms(1) g
    by (simp add: mapFacetedUnit_def Let_def row_def[symmetric] column_def[symmetric]
        facet_def[symmetric] inner_def)
  have c: "\<exists>props' more.
      mapFacetedUnit env this_map spec params =
        (case this_map (Unit inner) params of
           Inl e \<Rightarrow> Inl e
         | Inr (c, clog) \<Rightarrow> Inr (Facet (FacetMapping facetMapping) c props', dropped # more @ clog))
      \<and> (more = [] \<or> more = [Warn (ColumnsNotSupportByRowCol ''facet'')])"
  proof (cases "truthy (lookup (spread (u_other spec) layout) ''columns'')")
    case True
    have "mapFacetedUnit env this_map spec params =
        (case this_map (Unit inner) params of
           Inl e \<Rightarrow> Inl e
         | Inr (c, clog) \<Rightarrow>
             Inr (Facet (FacetMapping facetMapping) c (omit (spread (u_other spec) layout) [''columns'']),
                  dropped # [Warn (ColumnsNotSupportByRowCol ''facet'')] @ clog))"
      unfolding m using True
      by (simp add: mapFacet_def super_mapFacet_def after_log_def split: sum.splits prod.splits)
    then show ?thesis by blast
  next
    case False
    have "mapFacetedUnit env this_map spec params =
        (case this_map (Unit inner) params of
           Inl e \<Rightarrow> Inl e
         | Inr (c, clog) \<Rightarrow>
             Inr (Facet (FacetMapping facetMapping) c (spread (u_other spec) layout),
                  dropped # [] @ clog))"
      unfolding m using False
      by (simp add: mapFacet_def super_mapFacet_def after_log_def split: sum.splits prod.splits)
    then show ?thesis by blast
  qed
  have i: "u_mark inner = u_mark spec"
    "u_encoding inner = replaceRepeaterInEncoding env (Some (omit enc [''row'', ''column'', ''facet''])) (p_repeater params)"
    by (simp_all add: inner_def)
  from a g c i show ?thesis
    unfolding Let_def row_def[symmetric] column_def[symmetric] facet_def[symmetric]
      facetMapping_def[symmetric] dropped_def[symmetric]
    by blast
qed

text \<open>
  A point unit with the channels \<open>x\<close>, \<open>row\<close> and \<open>facet\<close>: the normalizer returns a
  facet by the row channel around the unit with \<open>x\<close> alone, and the first entry of the
  log is the warning.
\<close>

theorem facet_channel_dropped_for_row_column_witness:
  "\<exists>clog.
     map_spec sample_env 3
       (Unit (sample_unit ''point''
          [(''x'', JStr ''A''), (''row'', JObj [(''field'', JStr ''a''), (''align'', JStr ''all'')]),
           (''facet'', JObj [(''field'', JStr ''b'')])]))
       (config_only JNull)
     = Inr (Facet (FacetMapping [(''row'', JObj [(''field'', JStr ''a'')])])
              (Unit ((sample_unit ''point'' [(''x'', JStr ''A'')])))
              [(''align'', JObj [(''row'', JStr ''all'')])],
            Warn (FacetChannelDropped [''row'']) # clog)"
proof -
  let ?enc = "[(''x'', JStr ''A''), (''row'', JObj [(''field'', JStr ''a''), (''align'', JStr ''all'')]),
           (''facet'', JObj [(''field'', JStr ''b'')])]"
  have h1: "u_encoding (sample_unit ''point'' ?enc) = Some ?enc" by (simp add: sample_unit_def)
  have h2: "truthy (lookup ?enc ''row'') \<or> truthy (lookup ?enc ''column'')" by (simp add: lookup_def)
  have h3: "truthy (lookup ?enc ''facet'')" by (simp add: lookup_def)
  from facet_channel_dropped_for_row_column[OF h1 h2 h3, of sample_env "config_only JNull" "map_spec sample_env 2"]
  show ?thesis
    by (simp add: numeral_3_eq_3 numeral_2_eq_2 sample_env_def sample_unit_def lookup_def
        ROW_def COLUMN_def FACET_def Let_def mapFacetedUnit_def getFacetMappingAndLayout_def
        channel_step_def layout_step_def props_of_def jsprop_def omit_def coalesce_def nullish_def
        mapFacet_def super_mapFacet_def after_log_def super_map_def spread_def
        nonFacetUnitNormalizers_def config_only_def)
qed

section \<open>The selections of a concatenation\<close>

lemma lookup_merge_keys:
  "lookup (foldl (\<lambda>sel key. assign sel key (lookup c key)) sel0 ks) k =
     (if k \<in> set ks then lookup c k else lookup sel0 k)"
  by (induction ks arbitrary: sel0) (auto simp: lookup_assign)

lemma keys_merge_keys:
  "set (keys (foldl (\<lambda>sel key. assign sel key (lookup c key)) sel0 ks)) = set (keys sel0) \<union> set ks"
  by (induction ks arbitrary: sel0) (auto simp: keys_assign)

lemma lookup_merge_selection:
  "lookup (merge_selection sel0 c) k = (if k \<in> set (keys c) then lookup c k else lookup sel0 k)"
  by (simp add: merge_selection_def lookup_merge_keys)

lemma keys_merge_selection:
  "set (keys (merge_selection sel0 c)) = set (keys sel0) \<union> set (keys c)"
  by (simp add: merge_selection_def keys_merge_keys)

lemma parseSelections_fold:
  "foldl (parseSelections_step child_parse child_selection) (sel0, done0, log0) cs =
     (foldl merge_selection sel0 (map (\<lambda>c. child_selection (fst (child_parse c))) cs),
      done0 @ map (\<lambda>c. fst (child_parse c)) cs,
      log0 @ concat (map (\<lambda>c. snd (child_parse c)) cs))"
  by (induction cs arbitrary: sel0 done0 log0)
    (auto simp: parseSelections_step_def split: prod.splits)

lemma lookup_merge_all:
  "lookup (foldl merge_selection sel0 (map g cs)) k =
     (case find (\<lambda>c. k \<in> set (keys (g c))) (rev cs) of
        None \<Rightarrow> lookup sel0 k
      | Some c \<Rightarrow> lookup (g c) k)"
proof (induction cs rule: rev_induct)
  case Nil
  then show ?case by simp
next
  case (snoc c cs)
  then show ?case by (simp add: lookup_merge_selection)
qed

lemma keys_merge_all:
  "set (keys (foldl merge_selection sel0 sels)) = set (keys sel0) \<union> (\<Union>c \<in> set sels. set (keys c))"
  by (induction sels rule: rev_induct) (auto simp: keys_merge_selection)

text \<open>
  Claim C8. \<^verbatim>\<open>parseSelections\<close> of a concatenation parses the selections of every child
  and merges what each child holds after its own parsing: the children of the model are
  the parsed children, and the value of a key in the merged selections is the definition
  of the last child, in the order of declaration, whose parsed selections have the key
  (and the key is absent when no child has it). The keys are those of all the children.
  The concatenation logs nothing of its own: the log is what the children logged.
\<close>

theorem parseSelections_last_child_wins:
  "let parsed = map (\<lambda>c. fst (child_parse c)) (cm_children this);
       (this', log1) = parseSelections child_parse child_selection this
   in cm_children this' = parsed
    \<and> (\<exists>selection. cm_selection this' = Some selection
         \<and> (\<forall>key. lookup selection key =
               (case find (\<lambda>c. key \<in> set (keys (child_selection c))) (rev parsed) of
                  None \<Rightarrow> JUndefined
                | Some c \<Rightarrow> lookup (child_selection c) key))
         \<and> set (keys selection) = (\<Union>c \<in> set parsed. set (keys (child_selection c))))
    \<and> log1 = concat (map (\<lambda>c. snd (child_parse c)) (cm_children this))"
proof -
  have l: "lookup (foldl merge_selection [] (map (\<lambda>c. child_selection (fst (child_parse c))) cs)) key =
      (case find (\<lambda>c. key \<in> set (keys (child_selection c))) (rev (map (\<lambda>c. fst (child_parse c)) cs)) of
         None \<Rightarrow> JUndefined
       | Some c \<Rightarrow> lookup (child_selection c) key)" for cs key
  proof -
    have "map (\<lambda>c. child_selection (fst (child_parse c))) cs
        = map child_selection (map (\<lambda>c. fst (child_parse c)) cs)"
      by simp
    then show ?thesis
      by (simp only: lookup_merge_all) (simp add: lookup_def split: option.splits)
  qed
  have k: "set (keys (foldl merge_selection [] (map (\<lambda>c. child_selection (fst (child_parse c))) cs)))
      = (\<Union>c \<in> set (map (\<lambda>c. fst (child_parse c)) cs). set (keys (child_selection c)))" for cs
    unfolding keys_merge_all by (simp add: keys_def)
  show ?thesis
    by (simp add: parseSelections_def parseSelections_fold Let_def l k)
qed



text \<open>
  Two children that both define the selection \<open>brush\<close>, each known only once the child
  has parsed it: the merged selections hold the second child's definition of \<open>brush\<close>,
  the first child's \<open>grid\<close>, and nothing is logged.
\<close>

theorem parseSelections_last_child_wins_witness:
  "parseSelections (\<lambda>c. ((fst c, fst c), [])) snd
      \<lparr>cm_base = (), cm_concatType = ''concat'',
       cm_children = [([(''brush'', JStr ''first''), (''grid'', JStr ''g'')], []),
                      ([(''brush'', JStr ''second'')], [])],
       cm_selection = None\<rparr>
   = (\<lparr>cm_base = (), cm_concatType = ''concat'',
       cm_children = [([(''brush'', JStr ''first''), (''grid'', JStr ''g'')],
                       [(''brush'', JStr ''first''), (''grid'', JStr ''g'')]),
                      ([(''brush'', JStr ''second'')], [(''brush'', JStr ''second'')])],
       cm_selection = Some [(''brush'', JStr ''second''), (''grid'', JStr ''g'')]\<rparr>, [])"
  using parseSelections_last_child_wins[of "\<lambda>c. ((fst c, fst c), [])"
      "\<lparr>cm_base = (), cm_concatType = ''concat'',
        cm_children = [([(''brush'', JStr ''first''), (''grid'', JStr ''g'')], []),
                       ([(''brush'', JStr ''second'')], [])],
        cm_selection = None\<rparr>" snd]
  by (simp add: parseSelections_def parseSelections_step_def merge_selection_def keys_def lookup_def)


section \<open>Building a concatenation model\<close>

text \<open>
  Claim C10. For a concatenation whose resolve policy has a shared x axis or a shared y
  axis, the constructor logs exactly one warning of its own, that axes cannot be shared
  in a concatenation, before it builds the children; the model is built as for every
  concatenation: the base from the constructor of \<^verbatim>\<open>Model\<close>, the kind of concatenation,
  and one child model for each child specification, in order, named by its index.
\<close>

theorem ConcatModel_new_warns_once_for_shared_axis:
  assumes "getChildren spec = Inr cs"
    and "jsprop (jsprop (lookup (other_props spec) ''resolve'') ''axis'') ''x'' = JStr ''shared''
         \<or> jsprop (jsprop (lookup (other_props spec) ''resolve'') ''axis'') ''y'' = JStr ''shared''"
  shows "let base = super_new spec parent parentGivenName config (lookup (other_props spec) ''resolve'');
             concatType = (if isVConcatSpec spec then ''vconcat''
                           else if isHConcatSpec spec then ''hconcat'' else ''concat'');
             build = (\<lambda>(child, i). buildModel child (base, concatType)
                        (getName base (''concat_'' @ string_of_nat i)) JUndefined config)
         in ConcatModel_new super_new getName buildModel spec parent parentGivenName config =
              Inr (\<lparr>cm_base = base, cm_concatType = concatType,
                    cm_children = map (\<lambda>ci. fst (build ci)) (zip cs [0..<length cs]),
                    cm_selection = None\<rparr>,
                   Warn ConcatCannotShareAxis
                   # concat (map (\<lambda>ci. snd (build ci)) (zip cs [0..<length cs])))"
  using assms
  by (simp add: ConcatModel_new_def Let_def comp_def split: prod.splits)



text \<open>
  A concatenation of two units that asks for a shared x axis, with child models that are
  just their names: one warning, and the two children \<open>root_concat_0\<close> and
  \<open>root_concat_1\<close>.
\<close>

theorem ConcatModel_new_warns_once_for_shared_axis_witness:
  "ConcatModel_new (\<lambda>spec parent parentGivenName config resolve. parentGivenName)
      (\<lambda>base text. base @ ''_'' @ text)
      (\<lambda>child parent name unitSize config. (name, []))
      (Concat [sample_child, sample_child]
         [(''resolve'', JObj [(''axis'', JObj [(''x'', JStr ''shared'')])])])
      () ''root'' JNull
   = Inr (\<lparr>cm_base = ''root'', cm_concatType = ''concat'',
           cm_children = [''root_concat_0'', ''root_concat_1''], cm_selection = None\<rparr>,
          [Warn ConcatCannotShareAxis])"
proof -
  let ?spec = "Concat [sample_child, sample_child]
         [(''resolve'', JObj [(''axis'', JObj [(''x'', JStr ''shared'')])])]"
  have h1: "getChildren ?spec = Inr [sample_child, sample_child]" by simp
  have h2: "jsprop (jsprop (lookup (other_props ?spec) ''resolve'') ''axis'') ''x'' = JStr ''shared''
         \<or> jsprop (jsprop (lookup (other_props ?spec) ''resolve'') ''axis'') ''y'' = JStr ''shared''"
    by (simp add: jsprop_def lookup_def)
  have d: "string_of_nat 0 = ''0''" "string_of_nat (Suc 0) = ''1''"
    by simp_all
  have z: "zip [sample_child, sample_child] [0..<2] = [(sample_child, 0), (sample_child, Suc 0)]"
    by (simp add: upt_rec numeral_2_eq_2)
  from ConcatModel_new_warns_once_for_shared_axis[OF h1 h2,
      of "\<lambda>spec parent parentGivenName config resolve. parentGivenName" "()" "''root''" JNull
         "\<lambda>child parent name unitSize config. (name, [])" "\<lambda>base text. base @ ''_'' @ text"]
  show ?thesis
    by (simp add: Let_def z d del: string_of_nat.simps)
qed

section \<open>Normalizing a canonical specification\<close>

























end
